theory Spec2Isabelle
  imports Complex_Main "HOL-Library.Word" "HOL-Library.Log_Nat" "HOL-Library.Sublist"
    "HOL-Library.Signed_Division"
begin

section \<open>Package awslogs: indicator fields and scanners (pantherlog.go)\<close>

subsection \<open>Field identifiers and the value writer\<close>

text \<open>
  \<^verbatim>\<open>pantherlog.FieldID\<close> is an integer type; the four AWS fields are declared as
  \<^verbatim>\<open>1000 + iota\<close>.
\<close>

type_synonym FieldID = int

definition FieldAccountID :: FieldID where "FieldAccountID = 1000"
definition FieldInstanceID :: FieldID where "FieldInstanceID = 1001"
definition FieldARN :: FieldID where "FieldARN = 1002"
definition FieldTag :: FieldID where "FieldTag = 1003"

text \<open>
  \<^verbatim>\<open>pantherlog.ValueWriter\<close> is an interface with the single method
  \<^verbatim>\<open>WriteValues(field, values...)\<close>. A scanner only ever calls that method, so the
  writer is modelled by the calls it has received, oldest first.
\<close>

type_synonym ValueWriter = "(FieldID \<times> string list) list"

definition WriteValues :: "ValueWriter \<Rightarrow> FieldID \<Rightarrow> string list \<Rightarrow> ValueWriter" where
  "WriteValues w field vals = w @ [(field, vals)]"

subsection \<open>The account id pattern\<close>

text \<open>
  \<^verbatim>\<open>awsAccountIDRegex = regexp.MustCompile(`^\d{12}$`)\<close>. In Go's regexp syntax
  \<^verbatim>\<open>\d\<close> is an ASCII digit and, without the multi-line flag, \<^verbatim>\<open>^\<close> and \<^verbatim>\<open>$\<close>
  match only at the beginning and at the end of the text. \<open>match_digits n\<close> is the
  matcher of \<^verbatim>\<open>\d{n}\<close> at the head of the text: it returns the text that is left.
\<close>

definition isDigit :: "char \<Rightarrow> bool" where
  "isDigit c = (let n = (of_char c :: nat) in 48 \<le> n \<and> n \<le> 57)"

fun match_digits :: "nat \<Rightarrow> string \<Rightarrow> string option" where
  "match_digits 0 s = Some s"
| "match_digits (Suc n) [] = None"
| "match_digits (Suc n) (c # s) = (if isDigit c then match_digits n s else None)"

definition awsAccountIDRegex_MatchString :: "string \<Rightarrow> bool" where
  "awsAccountIDRegex_MatchString s = (match_digits 12 s = Some [])"

subsection \<open>Scanners\<close>

definition ScanAccountID :: "ValueWriter \<Rightarrow> string \<Rightarrow> ValueWriter" where
  "ScanAccountID w input =
     (let sizeAccountID = 12 in
      if length input = sizeAccountID \<and> awsAccountIDRegex_MatchString input
      then WriteValues w FieldAccountID [input]
      else w)"

definition ScanInstanceID :: "ValueWriter \<Rightarrow> string \<Rightarrow> ValueWriter" where
  "ScanInstanceID w input =
     (if prefix ''i-'' input then WriteValues w FieldInstanceID [input] else w)"

text \<open>
  \<^verbatim>\<open>strings.LastIndex(s, "/")\<close> for a one-byte separator: the index of the last
  occurrence of the byte, or \<open>-1\<close>. The scan keeps the position of the latest match.
\<close>

fun LastIndex_from :: "char \<Rightarrow> string \<Rightarrow> int \<Rightarrow> int \<Rightarrow> int" where
  "LastIndex_from c [] i found = found"
| "LastIndex_from c (x # xs) i found = LastIndex_from c xs (i + 1) (if x = c then i else found)"

definition strings_LastIndex :: "string \<Rightarrow> char \<Rightarrow> int" where
  "strings_LastIndex s c = LastIndex_from c s 0 (- 1)"

definition scanResourceInstanceID :: "ValueWriter \<Rightarrow> string \<Rightarrow> ValueWriter" where
  "scanResourceInstanceID w input =
     (if \<not> prefix ''instance/'' input then w
      else let slashIndex = strings_LastIndex input (CHR ''/'') in
        if slashIndex < int (length input) - 2
        then ScanInstanceID w (drop (nat (slashIndex + 1)) input)
        else w)"

text \<open>
  \<^verbatim>\<open>arn.ARN\<close> and \<^verbatim>\<open>arn.Parse\<close> belong to the AWS SDK, not to this repository.
  \<open>ScanARN\<close> takes the parser as a parameter: \<open>None\<close> is a returned error.
\<close>

record ARN =
  Partition :: string
  Service :: string
  Region :: string
  AccountID :: string
  Resource :: string

definition ScanARN :: "(string \<Rightarrow> ARN option) \<Rightarrow> ValueWriter \<Rightarrow> string \<Rightarrow> ValueWriter" where
  "ScanARN parse w input =
     (case parse input of
        None \<Rightarrow> w
      | Some parsedARN \<Rightarrow>
          scanResourceInstanceID
            (ScanAccountID (WriteValues w FieldARN [input]) (AccountID parsedARN))
            (Resource parsedARN))"

text \<open>
  The SDK's parser, as its documentation describes it: the text must start with
  \<^verbatim>\<open>arn:\<close> and split at colons into six sections, the last one taking the rest of
  the text. It is used only to run the scanners on concrete inputs.
\<close>

fun splitN :: "nat \<Rightarrow> char \<Rightarrow> string \<Rightarrow> string list" where
  "splitN 0 c s = []"
| "splitN (Suc 0) c s = [s]"
| "splitN (Suc (Suc n)) c s =
     (if c \<in> set s
      then takeWhile (\<lambda>x. x \<noteq> c) s # splitN (Suc n) c (tl (dropWhile (\<lambda>x. x \<noteq> c) s))
      else [s])"

definition arn_Parse :: "string \<Rightarrow> ARN option" where
  "arn_Parse s =
     (if \<not> prefix ''arn:'' s then None
      else case splitN 6 (CHR '':'') s of
        [_, p, sv, r, a, res] \<Rightarrow>
          Some \<lparr>Partition = p, Service = sv, Region = r, AccountID = a, Resource = res\<rparr>
      | _ \<Rightarrow> None)"

subsection \<open>The claim's own wording of the ARN scanner\<close>

text \<open>
  The resource rule as the specification words it: the resource begins with
  \<^verbatim>\<open>instance/\<close>, its last slash is not its final character, and the instance id
  scanner runs on the text after that last slash. This definition follows the
  specification, not the source; it is compared with \<open>scanResourceInstanceID\<close> below.
\<close>

definition after_last_slash :: "string \<Rightarrow> string" where
  "after_last_slash s = rev (takeWhile (\<lambda>c. c \<noteq> CHR ''/'') (rev s))"

definition spec_scanResource :: "ValueWriter \<Rightarrow> string \<Rightarrow> ValueWriter" where
  "spec_scanResource w resource =
     (if prefix ''instance/'' resource \<and> last resource \<noteq> CHR ''/''
      then ScanInstanceID w (after_last_slash resource)
      else w)"

subsection \<open>The row and its indicator collections\<close>

text \<open>
  Modelled from the spec: \<^verbatim>\<open>parsers.PantherAnyString\<close>,
  \<^verbatim>\<open>parsers.NewPantherAnyString\<close> and \<^verbatim>\<open>parsers.AppendAnyString\<close> live in
  package \<^verbatim>\<open>parsers\<close>, which is not among the sources verified here. The
  specification describes an indicator collection as an ordered set of strings:
  membership is deduplicated and insertion order is preserved. The collection is a
  list without repetitions, a new one is empty, and appending adds each value that
  is not yet a member at the end.
\<close>

type_synonym PantherAnyString = "string list"

definition NewPantherAnyString :: PantherAnyString where
  "NewPantherAnyString = []"

fun AppendAnyString :: "PantherAnyString \<Rightarrow> string list \<Rightarrow> PantherAnyString" where
  "AppendAnyString any [] = any"
| "AppendAnyString any (v # vs) = AppendAnyString (if v \<in> set any then any else any @ [v]) vs"

text \<open>
  \<^verbatim>\<open>AWSPantherLog\<close> embeds \<^verbatim>\<open>parsers.PantherLog\<close> (kept as a field of an arbitrary
  type) and holds four pointers to collections; a nil pointer is \<open>None\<close>.
\<close>

record 'a AWSPantherLog =
  PantherLog :: 'a
  PantherAnyAWSAccountIds :: "PantherAnyString option"
  PantherAnyAWSInstanceIds :: "PantherAnyString option"
  PantherAnyAWSARNs :: "PantherAnyString option"
  PantherAnyAWSTags :: "PantherAnyString option"

text \<open>The \<^verbatim>\<open>// lazy create\<close> step: the collection behind the pointer after it.\<close>

definition lazy_create :: "PantherAnyString option \<Rightarrow> PantherAnyString" where
  "lazy_create p = (case p of None \<Rightarrow> NewPantherAnyString | Some any \<Rightarrow> any)"

fun AppendAnyAWSAccountIds :: "'a AWSPantherLog \<Rightarrow> string list \<Rightarrow> 'a AWSPantherLog" where
  "AppendAnyAWSAccountIds pl [] = pl"
| "AppendAnyAWSAccountIds pl (v # vs) =
     (if \<not> awsAccountIDRegex_MatchString v then AppendAnyAWSAccountIds pl vs
      else AppendAnyAWSAccountIds
             (pl\<lparr>PantherAnyAWSAccountIds :=
                   Some (AppendAnyString (lazy_create (PantherAnyAWSAccountIds pl)) [v])\<rparr>)
             vs)"

definition AppendAnyAWSInstanceIds :: "'a AWSPantherLog \<Rightarrow> string list \<Rightarrow> 'a AWSPantherLog" where
  "AppendAnyAWSInstanceIds pl vs =
     pl\<lparr>PantherAnyAWSInstanceIds :=
          Some (AppendAnyString (lazy_create (PantherAnyAWSInstanceIds pl)) vs)\<rparr>"

definition AppendAnyAWSARNs :: "'a AWSPantherLog \<Rightarrow> string list \<Rightarrow> 'a AWSPantherLog" where
  "AppendAnyAWSARNs pl vs =
     pl\<lparr>PantherAnyAWSARNs :=
          Some (AppendAnyString (lazy_create (PantherAnyAWSARNs pl)) vs)\<rparr>"

definition AppendAnyAWSTags :: "'a AWSPantherLog \<Rightarrow> string list \<Rightarrow> 'a AWSPantherLog" where
  "AppendAnyAWSTags pl vs =
     pl\<lparr>PantherAnyAWSTags :=
          Some (AppendAnyString (lazy_create (PantherAnyAWSTags pl)) vs)\<rparr>"

text \<open>The members of the collection behind a pointer; a nil pointer has none.\<close>

definition members :: "PantherAnyString option \<Rightarrow> string set" where
  "members p = (case p of None \<Rightarrow> {} | Some any \<Rightarrow> set any)"

definition empty_row :: "unit AWSPantherLog" where
  "empty_row = \<lparr>PantherLog = (), PantherAnyAWSAccountIds = None,
     PantherAnyAWSInstanceIds = None, PantherAnyAWSARNs = None, PantherAnyAWSTags = None\<rparr>"

section \<open>Package tcodec: time codecs (tcodec.go)\<close>

subsection \<open>float64\<close>

text \<open>
  Go's \<^verbatim>\<open>float64\<close> is the IEEE 754 binary64 format. A finite value is kept as the
  rational number it denotes (the sign of zero is not kept); every operation
  computes the exact result and rounds it to the nearest value with a 53 bit
  significand \<open>m\<close> and exponent \<open>e\<close>, ties to even, with gradual underflow (the
  exponent is never below \<open>- 1022\<close>) and overflow to infinity when the rounded
  value reaches \<open>2\<close> to the power \<open>1024\<close>. \<open>pow2 k\<close> is \<open>2\<close> to the power \<open>k\<close>, and
  \<open>ilog2 a\<close> is the exponent of \<open>a\<close>: the integer part of its binary logarithm.
\<close>

datatype float64 = Finite rat | PosInf | NegInf | NaN

definition pow2 :: "int \<Rightarrow> rat" where
  "pow2 k = (if 0 \<le> k then of_int (2 ^ nat k) else 1 / of_int (2 ^ nat (- k)))"

definition ilog2 :: "rat \<Rightarrow> int" where
  "ilog2 a = (let (p, q) = quotient_of a; d = bitlen p - bitlen q
              in if pow2 d \<le> a then d else d - 1)"

definition round_half_even :: "rat \<Rightarrow> int" where
  "round_half_even q =
     (let f = \<lfloor>q\<rfloor>; r = q - of_int f
      in if r < 1 / 2 then f else if 1 / 2 < r then f + 1 else if even f then f else f + 1)"

definition round_f64 :: "rat \<Rightarrow> float64" where
  "round_f64 x =
     (if x = 0 then Finite 0
      else let a = \<bar>x\<bar>;
               e = max (ilog2 a) (- 1022);
               u = pow2 (e - 52);
               m = round_half_even (a / u)
           in if 1024 \<le> e \<or> (e = 1023 \<and> m = 2 ^ 53)
              then (if 0 < x then PosInf else NegInf)
              else Finite (if 0 < x then of_int m * u else - (of_int m * u)))"

definition fsign :: "float64 \<Rightarrow> int" where
  "fsign a = (case a of Finite x \<Rightarrow> (if 0 < x then 1 else if x < 0 then - 1 else 0)
              | PosInf \<Rightarrow> 1 | NegInf \<Rightarrow> - 1 | NaN \<Rightarrow> 0)"

definition fmul :: "float64 \<Rightarrow> float64 \<Rightarrow> float64" where
  "fmul a b =
     (case (a, b) of
        (Finite x, Finite y) \<Rightarrow> round_f64 (x * y)
      | _ \<Rightarrow> if a = NaN \<or> b = NaN \<or> fsign a * fsign b = 0 then NaN
             else if 0 < fsign a * fsign b then PosInf else NegInf)"

definition fadd :: "float64 \<Rightarrow> float64 \<Rightarrow> float64" where
  "fadd a b =
     (case (a, b) of
        (Finite x, Finite y) \<Rightarrow> round_f64 (x + y)
      | (Finite x, _) \<Rightarrow> b
      | (_, Finite y) \<Rightarrow> a
      | _ \<Rightarrow> if a = b then a else NaN)"

definition fdiv :: "float64 \<Rightarrow> float64 \<Rightarrow> float64" where
  "fdiv a b =
     (case (a, b) of
        (Finite x, Finite y) \<Rightarrow>
          if y = 0 then (if x = 0 then NaN else if 0 < x then PosInf else NegInf)
          else round_f64 (x / y)
      | (Finite x, NaN) \<Rightarrow> NaN
      | (Finite x, _) \<Rightarrow> Finite 0
      | (NaN, _) \<Rightarrow> NaN
      | (_, Finite y) \<Rightarrow> if (0 \<le> y) = (a = PosInf) then PosInf else NegInf
      | _ \<Rightarrow> NaN)"

text \<open>
  Conversions. \<^verbatim>\<open>float64(n)\<close> rounds; \<^verbatim>\<open>int64(f)\<close> drops the fraction. When the
  truncated value does not fit (or \<open>f\<close> is not finite) Go leaves the result to the
  implementation; the model takes the value amd64 produces, the least \<^verbatim>\<open>int64\<close>.
\<close>

definition float64_of_int64 :: "64 word \<Rightarrow> float64" where
  "float64_of_int64 n = round_f64 (of_int (sint n))"

definition truncate_rat :: "rat \<Rightarrow> int" where
  "truncate_rat x = (if 0 \<le> x then \<lfloor>x\<rfloor> else - \<lfloor>- x\<rfloor>)"

definition int64_of_float64 :: "float64 \<Rightarrow> 64 word" where
  "int64_of_float64 f =
     (case f of
        Finite x \<Rightarrow>
          (let t = truncate_rat x
           in if - (2 ^ 63) \<le> t \<and> t < 2 ^ 63 then word_of_int t else word_of_int (- (2 ^ 63)))
      | _ \<Rightarrow> word_of_int (- (2 ^ 63)))"

text \<open>
  Go's integer quotient and remainder truncate towards zero. Every divisor in the
  source is a constant that is not zero.
\<close>

definition int64_quo :: "64 word \<Rightarrow> 64 word \<Rightarrow> 64 word" where
  "int64_quo a b = word_of_int (sint a sdiv sint b)"

definition int64_rem :: "64 word \<Rightarrow> 64 word \<Rightarrow> 64 word" where
  "int64_rem a b = word_of_int (sint a smod sint b)"

subsection \<open>time.Time and time.Duration\<close>

text \<open>
  A \<^verbatim>\<open>time.Time\<close> is an instant and a location. The instant is counted in
  nanoseconds from the Unix epoch; the zero \<^verbatim>\<open>Time\<close> is January 1 of year 1, 00:00
  UTC, which is 62135596800 seconds before the epoch. A \<^verbatim>\<open>time.Duration\<close> is an
  \<^verbatim>\<open>int64\<close> count of nanoseconds.
\<close>

datatype Location = UTC | Local | Zone string

record Time =
  instant :: int
  location :: Location

type_synonym Duration = "64 word"

definition Microsecond :: Duration where "Microsecond = 1000"
definition Millisecond :: Duration where "Millisecond = 1000 * Microsecond"
definition Second :: Duration where "Second = 1000 * Millisecond"

definition zero_instant :: int where
  "zero_instant = - 62135596800 * 1000000000"

definition Time_zero :: Time where
  "Time_zero = \<lparr>instant = zero_instant, location = UTC\<rparr>"

definition IsZero :: "Time \<Rightarrow> bool" where
  "IsZero t = (instant t = zero_instant)"

definition time_Unix :: "64 word \<Rightarrow> 64 word \<Rightarrow> Time" where
  "time_Unix sec nsec = \<lparr>instant = sint sec * 1000000000 + sint nsec, location = Local\<rparr>"

definition UnixNano :: "Time \<Rightarrow> 64 word" where
  "UnixNano t = word_of_int (instant t)"

definition Truncate :: "Time \<Rightarrow> Duration \<Rightarrow> Time" where
  "Truncate t d =
     (if sint d \<le> 0 then t
      else t\<lparr>instant := instant t - (instant t - zero_instant) mod sint d\<rparr>)"

definition Time_In :: "Time \<Rightarrow> Location \<Rightarrow> Time" where
  "Time_In t l = t\<lparr>location := l\<rparr>"

definition Duration_Seconds :: "Duration \<Rightarrow> float64" where
  "Duration_Seconds d =
     (let sec = int64_quo d Second; nsec = int64_rem d Second
      in fadd (float64_of_int64 sec) (fdiv (float64_of_int64 nsec) (Finite 1000000000)))"

definition RFC3339 :: string where
  "RFC3339 = ''2006-01-02T15:04:05Z07:00''"

definition RFC3339Nano :: string where
  "RFC3339Nano = ''2006-01-02T15:04:05.999999999Z07:00''"

text \<open>
  The text functions of the standard library are parameters of the model:
  \<^verbatim>\<open>strconv.ParseFloat(s, 64)\<close>, \<^verbatim>\<open>strconv.ParseInt(s, 10, 64)\<close>,
  \<^verbatim>\<open>time.Parse(layout, value)\<close> and \<^verbatim>\<open>Time.Format(layout)\<close>. \<open>Inl\<close> carries the
  text of a returned error. Two facts of the layout language are fixed. The layout
  \<^verbatim>\<open>time.RFC3339\<close> starts with a four digit year, so the empty text does not parse
  with it. A double quote is no part of any layout element, so formatting copies a
  double quote at the head of a layout and goes on with the rest.
\<close>

record stdlib =
  strconv_ParseFloat :: "string \<Rightarrow> string + float64"
  strconv_ParseInt :: "string \<Rightarrow> string + 64 word"
  lib_time_Parse :: "string \<Rightarrow> string \<Rightarrow> string + Time"
  lib_time_Format :: "Time \<Rightarrow> string \<Rightarrow> string"

definition time_Parse :: "stdlib \<Rightarrow> string \<Rightarrow> string \<Rightarrow> string + Time" where
  "time_Parse L layout v =
     (if layout = RFC3339 \<and> v = [] then Inl ''parsing time: cannot parse the empty text as 2006''
      else lib_time_Parse L layout v)"

fun time_Format :: "stdlib \<Rightarrow> Time \<Rightarrow> string \<Rightarrow> string" where
  "time_Format L tm [] = lib_time_Format L tm []"
| "time_Format L tm (c # layout) =
     (if c = CHR 0x22 then c # time_Format L tm layout else lib_time_Format L tm (c # layout))"

subsection \<open>jsoniter: the output stream\<close>

text \<open>
  \<^verbatim>\<open>jsoniter\<close> is an external library. Its \<^verbatim>\<open>Stream\<close> is modelled by the pieces
  written to it, oldest first: one piece for each \<^verbatim>\<open>Write...\<close> call, and \<open>WBytes\<close>
  for bytes appended to the buffer directly.
\<close>

datatype piece = WNil | WFloat64 float64 | WInt64 "64 word" | WString string | WBytes string

type_synonym Stream = "piece list"

text \<open>A piece that reads as the JSON value null.\<close>

definition json_null :: "piece \<Rightarrow> bool" where
  "json_null x = (x = WNil \<or> x = WBytes ''null'')"

definition WriteNil :: "Stream \<Rightarrow> Stream" where
  "WriteNil stream = stream @ [WNil]"

definition WriteFloat64 :: "Stream \<Rightarrow> float64 \<Rightarrow> Stream" where
  "WriteFloat64 stream f = stream @ [WFloat64 f]"

definition WriteInt64 :: "Stream \<Rightarrow> 64 word \<Rightarrow> Stream" where
  "WriteInt64 stream n = stream @ [WInt64 n]"

definition WriteString :: "Stream \<Rightarrow> string \<Rightarrow> Stream" where
  "WriteString stream s = stream @ [WString s]"

definition Buffer :: "Stream \<Rightarrow> piece list" where
  "Buffer stream = stream"

definition SetBuffer :: "Stream \<Rightarrow> piece list \<Rightarrow> Stream" where
  "SetBuffer stream b = b"

definition AppendFormat :: "stdlib \<Rightarrow> Time \<Rightarrow> piece list \<Rightarrow> string \<Rightarrow> piece list" where
  "AppendFormat L tm b layout = b @ [WBytes (time_Format L tm layout)]"

subsection \<open>jsoniter: the iterator and its pool\<close>

text \<open>
  The iterator is modelled at the level of JSON values: its buffer is the list of
  values not yet read, and the raw bytes of a value are the value. A number is the
  rational its literal denotes. \<^verbatim>\<open>Error\<close> is \<open>None\<close> for \<^verbatim>\<open>nil\<close>; \<open>EOF\<close> is
  \<^verbatim>\<open>io.EOF\<close>, set when the iterator looks for a token in an exhausted buffer.
  \<^verbatim>\<open>ReportError\<close> keeps an error that is already there, unless it is \<^verbatim>\<open>io.EOF\<close>.
  A read consumes a whole value; \<^verbatim>\<open>ReadString\<close> reads a null as the empty string,
  and \<^verbatim>\<open>ReadFloat64\<close> rounds the literal to the nearest \<^verbatim>\<open>float64\<close>.
\<close>

datatype json = JString string | JNumber rat | JNil | JBool bool
  | JArray "json list" | JObject "(string \<times> json) list"

datatype ValueType = InvalidValue | StringValue | NumberValue | NilValue | BoolValue
  | ArrayValue | ObjectValue

datatype error = EOF | Reported string string

record Iterator =
  buf :: "json list"
  Error :: "error option"

fun ValueType_of :: "json \<Rightarrow> ValueType" where
  "ValueType_of (JString s) = StringValue"
| "ValueType_of (JNumber q) = NumberValue"
| "ValueType_of JNil = NilValue"
| "ValueType_of (JBool b) = BoolValue"
| "ValueType_of (JArray xs) = ArrayValue"
| "ValueType_of (JObject kvs) = ObjectValue"

definition ReportError :: "Iterator \<Rightarrow> string \<Rightarrow> string \<Rightarrow> Iterator" where
  "ReportError iter operation msg =
     (case Error iter of
        Some (Reported _ _) \<Rightarrow> iter
      | _ \<Rightarrow> iter\<lparr>Error := Some (Reported operation msg)\<rparr>)"

definition loadMore :: "Iterator \<Rightarrow> Iterator" where
  "loadMore iter = (if Error iter = None then iter\<lparr>Error := Some EOF\<rparr> else iter)"

definition WhatIsNext :: "Iterator \<Rightarrow> ValueType \<times> Iterator" where
  "WhatIsNext iter =
     (case buf iter of [] \<Rightarrow> (InvalidValue, loadMore iter) | v # _ \<Rightarrow> (ValueType_of v, iter))"

definition ReadNil :: "Iterator \<Rightarrow> bool \<times> Iterator" where
  "ReadNil iter =
     (case buf iter of
        [] \<Rightarrow> (False, loadMore iter)
      | JNil # rest \<Rightarrow> (True, iter\<lparr>buf := rest\<rparr>)
      | _ # _ \<Rightarrow> (False, iter))"

definition ReadString :: "Iterator \<Rightarrow> string \<times> Iterator" where
  "ReadString iter =
     (case buf iter of
        [] \<Rightarrow> ([], ReportError (loadMore iter) ''ReadString'' ''expects quote or n'')
      | JString s # rest \<Rightarrow> (s, iter\<lparr>buf := rest\<rparr>)
      | JNil # rest \<Rightarrow> ([], iter\<lparr>buf := rest\<rparr>)
      | _ # _ \<Rightarrow> ([], ReportError iter ''ReadString'' ''expects quote or n''))"

definition ReadFloat64 :: "Iterator \<Rightarrow> float64 \<times> Iterator" where
  "ReadFloat64 iter =
     (case buf iter of
        [] \<Rightarrow> (Finite 0, ReportError (loadMore iter) ''readFloat64'' ''invalid number'')
      | JNumber q # rest \<Rightarrow> (round_f64 q, iter\<lparr>buf := rest\<rparr>)
      | _ # _ \<Rightarrow> (Finite 0, ReportError iter ''readFloat64'' ''invalid number''))"

definition ReadInt64 :: "Iterator \<Rightarrow> 64 word \<times> Iterator" where
  "ReadInt64 iter =
     (case buf iter of
        [] \<Rightarrow> (0, ReportError (loadMore iter) ''ReadInt64'' ''unexpected end'')
      | JNumber q # rest \<Rightarrow>
          (if of_int \<lfloor>q\<rfloor> = q \<and> - (2 ^ 63) \<le> \<lfloor>q\<rfloor> \<and> \<lfloor>q\<rfloor> < 2 ^ 63
           then (word_of_int \<lfloor>q\<rfloor>, iter\<lparr>buf := rest\<rparr>)
           else (0, ReportError (iter\<lparr>buf := rest\<rparr>) ''ReadInt64'' ''not an int64''))
      | _ # _ \<Rightarrow> (0, ReportError iter ''ReadInt64'' ''unexpected character''))"

definition Skip :: "Iterator \<Rightarrow> Iterator" where
  "Skip iter =
     (case buf iter of
        [] \<Rightarrow> ReportError (loadMore iter) ''Skip'' ''do not know how to skip''
      | _ # rest \<Rightarrow> iter\<lparr>buf := rest\<rparr>)"

definition SkipAndReturnBytes :: "Iterator \<Rightarrow> json list \<times> Iterator" where
  "SkipAndReturnBytes iter = (take 1 (buf iter), Skip iter)"

definition ResetBytes :: "Iterator \<Rightarrow> json list \<Rightarrow> Iterator" where
  "ResetBytes iter input = iter\<lparr>buf := input\<rparr>"

text \<open>
  The pool hands out iterators and takes them back; it is shared by every iterator
  of one configuration, so it is a state of its own, passed beside the iterator. It
  counts the iterators handed out and the iterators handed back. An iterator in
  the pool has no error (\<^verbatim>\<open>ReturnIterator\<close> clears it), so a borrowed one has none.
\<close>

record Pool =
  borrowed :: nat
  returned :: nat

definition BorrowIterator :: "Pool \<Rightarrow> json list \<Rightarrow> Iterator \<times> Pool" where
  "BorrowIterator p data =
     (ResetBytes \<lparr>buf = [], Error = None\<rparr> data, p\<lparr>borrowed := borrowed p + 1\<rparr>)"

definition ReturnIterator :: "Pool \<Rightarrow> Iterator \<Rightarrow> Pool" where
  "ReturnIterator p iter = p\<lparr>returned := returned p + 1\<rparr>"

subsection \<open>The epoch codecs\<close>

definition UnixSeconds :: "float64 \<Rightarrow> Time" where
  "UnixSeconds sec =
     (let usec = float64_of_int64 (int64_quo Second Microsecond);
          precision = Microsecond
      in time_Unix 0 (int64_of_float64 (fmul sec usec) * precision))"

definition unixSecondsCodec_EncodeTime :: "Time \<Rightarrow> Stream \<Rightarrow> Stream" where
  "unixSecondsCodec_EncodeTime tm stream =
     (if IsZero tm then WriteNil stream
      else let tm1 = Truncate tm Microsecond;
               unixSeconds = Duration_Seconds (UnixNano tm1)
           in WriteFloat64 stream unixSeconds)"

definition unixSecondsCodec_DecodeTime :: "stdlib \<Rightarrow> Iterator \<Rightarrow> Time \<times> Iterator" where
  "unixSecondsCodec_DecodeTime L iter =
     (case WhatIsNext iter of
        (NumberValue, it) \<Rightarrow> (let (f, it1) = ReadFloat64 it in (UnixSeconds f, it1))
      | (NilValue, it) \<Rightarrow> (let (_, it1) = ReadNil it in (Time_zero, it1))
      | (StringValue, it) \<Rightarrow>
          (let (s, it1) = ReadString it
           in if s = [] then (Time_zero, it1)
              else case strconv_ParseFloat L s of
                     Inl err \<Rightarrow> (Time_zero, ReportError it1 ''ReadUnixSeconds'' err)
                   | Inr f \<Rightarrow> (UnixSeconds f, it1))
      | (_, it) \<Rightarrow> (Time_zero, ReportError (Skip it) ''ReadUnixSeconds'' ''invalid JSON value''))"

definition UnixMilliseconds :: "64 word \<Rightarrow> Time" where
  "UnixMilliseconds n = time_Unix 0 (n * Millisecond)"

definition unixMillisecondsCodec_EncodeTime :: "Time \<Rightarrow> Stream \<Rightarrow> Stream" where
  "unixMillisecondsCodec_EncodeTime tm stream =
     (if IsZero tm then WriteNil stream
      else let msec = int64_quo (UnixNano tm) Millisecond
           in WriteInt64 stream msec)"

definition unixMillisecondsCodec_DecodeTime :: "stdlib \<Rightarrow> Iterator \<Rightarrow> Time \<times> Iterator" where
  "unixMillisecondsCodec_DecodeTime L iter =
     (case WhatIsNext iter of
        (NumberValue, it) \<Rightarrow> (let (msec, it1) = ReadInt64 it in (UnixMilliseconds msec, it1))
      | (NilValue, it) \<Rightarrow> (let (_, it1) = ReadNil it in (Time_zero, it1))
      | (StringValue, it) \<Rightarrow>
          (let (s, it1) = ReadString it
           in if s = [] then (Time_zero, it1)
              else case strconv_ParseInt L s of
                     Inl err \<Rightarrow> (Time_zero, ReportError it1 ''ReadUnixMilliseconds'' err)
                   | Inr msec \<Rightarrow> (UnixMilliseconds msec, it1))
      | (_, it) \<Rightarrow>
          (Time_zero, ReportError (Skip it) ''ReadUnixMilliseconds'' ''invalid JSON value''))"

subsection \<open>The layout codec and the standard codec\<close>

definition layoutCodec_EncodeTime :: "stdlib \<Rightarrow> string \<Rightarrow> Time \<Rightarrow> Stream \<Rightarrow> Stream" where
  "layoutCodec_EncodeTime L layout tm stream = WriteString stream (time_Format L tm layout)"

definition layoutCodec_DecodeTime :: "stdlib \<Rightarrow> string \<Rightarrow> Iterator \<Rightarrow> Time \<times> Iterator" where
  "layoutCodec_DecodeTime L layout iter =
     (case WhatIsNext iter of
        (StringValue, it) \<Rightarrow>
          (let (s, it1) = ReadString it
           in if s = [] then (Time_zero, it1)
              else case time_Parse L layout s of
                     Inl err \<Rightarrow> (Time_zero, ReportError it1 ''DecodeTime'' err)
                   | Inr tm \<Rightarrow> (tm, it1))
      | (NilValue, it) \<Rightarrow> (let (_, it1) = ReadNil it in (Time_zero, it1))
      | (_, it) \<Rightarrow> (Time_zero, ReportError (Skip it) ''DecodeTime'' ''invalid JSON value''))"

definition stdCodec_DecodeTime :: "stdlib \<Rightarrow> Iterator \<Rightarrow> Time \<times> Iterator" where
  "stdCodec_DecodeTime L iter =
     (let (ts, it1) = ReadString iter
      in case time_Parse L RFC3339 ts of
           Inl err \<Rightarrow> (Time_zero, ReportError it1 ''DecodeTime'' err)
         | Inr tm \<Rightarrow> (tm, it1))"

definition layoutRFC3339NanoJSON :: string where
  "layoutRFC3339NanoJSON = [CHR 0x22] @ RFC3339Nano @ [CHR 0x22]"

definition stdCodec_EncodeTime :: "stdlib \<Rightarrow> Time \<Rightarrow> Stream \<Rightarrow> Stream" where
  "stdCodec_EncodeTime L tm stream =
     (let b = Buffer stream;
          b1 = AppendFormat L tm b layoutRFC3339NanoJSON
      in SetBuffer stream b1)"

subsection \<open>The fallback chain\<close>

text \<open>
  A \<^verbatim>\<open>TimeDecoder\<close> is an interface with the single method \<^verbatim>\<open>DecodeTime\<close>; a
  value of the interface is modelled by what that method does to the iterator it
  is given and to the pool. \<^verbatim>\<open>tryDecoder\<close> holds a slice of such values.
\<close>

type_synonym DecodeTimeFn = "Iterator \<Rightarrow> Pool \<Rightarrow> Time \<times> Iterator \<times> Pool"

type_synonym EncodeTimeFn = "Time \<Rightarrow> Stream \<Rightarrow> Stream"

text \<open>The four codecs above never touch the pool.\<close>

definition no_pool :: "(Iterator \<Rightarrow> Time \<times> Iterator) \<Rightarrow> DecodeTimeFn" where
  "no_pool f iter p = (let (tm, it1) = f iter in (tm, it1, p))"

text \<open>
  The \<^verbatim>\<open>for i, dec := range d.decoders\<close> loop. It runs on the decoders that are
  left, the index \<open>i\<close> of the first of them, the raw value, the scratch iterator
  \<open>child\<close> and the pool. \<open>Some tm\<close> is the \<^verbatim>\<open>return tm\<close> inside the loop; \<open>None\<close> is
  the loop running to its end.
\<close>

fun tryDecoder_loop ::
  "DecodeTimeFn list \<Rightarrow> nat \<Rightarrow> json list \<Rightarrow> Iterator \<Rightarrow> Pool \<Rightarrow> Time option \<times> Iterator \<times> Pool" where
  "tryDecoder_loop [] i rawJSON child p = (None, child, p)"
| "tryDecoder_loop (dec # decs) i rawJSON child p =
     (let child1 = (if i \<noteq> 0 then (ResetBytes child rawJSON)\<lparr>Error := None\<rparr> else child);
          (tm, child2, p2) = dec child1 p
      in if Error child2 = None then (Some tm, child2, p2)
         else tryDecoder_loop decs (i + 1) rawJSON child2 p2)"

definition tryDecoder_DecodeTime :: "DecodeTimeFn list \<Rightarrow> DecodeTimeFn" where
  "tryDecoder_DecodeTime decoders iter p =
     (let (rawJSON, iter1) = SkipAndReturnBytes iter;
          (child, p1) = BorrowIterator p rawJSON
      in case tryDecoder_loop decoders 0 rawJSON child p1 of
           (Some tm, child1, p2) \<Rightarrow> (tm, iter1, ReturnIterator p2 child1)
         | (None, child1, p2) \<Rightarrow>
             (Time_zero, iter1\<lparr>Error := Error child1\<rparr>, ReturnIterator p2 child1))"

definition TryDecoders_DecodeTime :: "DecodeTimeFn \<Rightarrow> DecodeTimeFn list \<Rightarrow> DecodeTimeFn" where
  "TryDecoders_DecodeTime dec fallback = tryDecoder_DecodeTime (dec # fallback)"

text \<open>
  The fallback chain as the specification words it. An attempt gives a decoder a
  fresh iterator over the raw value, with no error. The chain makes the attempts
  in order and stops at the first that leaves no error; \<open>lastErr\<close> is the error of
  the latest failed attempt. This definition follows the specification, not the
  source; it is compared with \<open>tryDecoder_DecodeTime\<close> below.
\<close>

definition attempt :: "DecodeTimeFn \<Rightarrow> json list \<Rightarrow> Pool \<Rightarrow> Time \<times> Iterator \<times> Pool" where
  "attempt dec rawJSON p = dec \<lparr>buf = rawJSON, Error = None\<rparr> p"

fun spec_chain ::
  "DecodeTimeFn list \<Rightarrow> json list \<Rightarrow> error option \<Rightarrow> Pool \<Rightarrow> (Time + error option) \<times> Pool" where
  "spec_chain [] rawJSON lastErr p = (Inr lastErr, p)"
| "spec_chain (dec # decs) rawJSON lastErr p =
     (case attempt dec rawJSON p of
        (tm, it, p1) \<Rightarrow>
          if Error it = None then (Inl tm, p1) else spec_chain decs rawJSON (Error it) p1)"

definition spec_TryDecoders :: "DecodeTimeFn \<Rightarrow> DecodeTimeFn list \<Rightarrow> DecodeTimeFn" where
  "spec_TryDecoders dec fallback iter p =
     (let rawJSON = take 1 (buf iter); iter1 = Skip iter
      in case spec_chain (dec # fallback) rawJSON None (p\<lparr>borrowed := borrowed p + 1\<rparr>) of
           (Inl tm, p1) \<Rightarrow> (tm, iter1, p1\<lparr>returned := returned p1 + 1\<rparr>)
         | (Inr lastErr, p1) \<Rightarrow>
             (Time_zero, iter1\<lparr>Error := lastErr\<rparr>, p1\<lparr>returned := returned p1 + 1\<rparr>))"

text \<open>A decoder that leaves the pool as it found it.\<close>

definition pool_neutral :: "DecodeTimeFn \<Rightarrow> bool" where
  "pool_neutral dec = (\<forall>iter p. snd (snd (dec iter p)) = p)"

text \<open>
  A decoder that hands back every iterator it borrows: both counts grow by the same
  number. A chain inside a chain is of this kind.
\<close>

definition pool_balanced :: "DecodeTimeFn \<Rightarrow> bool" where
  "pool_balanced dec =
     (\<forall>iter p. \<exists>k. snd (snd (dec iter p)) =
        p\<lparr>borrowed := borrowed p + k, returned := returned p + k\<rparr>)"

text \<open>What the caller of the loop uses of its result: the time or the error, and the pool.\<close>

definition loop_outcome ::
  "Time option \<times> Iterator \<times> Pool \<Rightarrow> (Time + error option) \<times> Pool" where
  "loop_outcome r =
     (case r of
        (Some tm, child, p) \<Rightarrow> (Inl tm, p)
      | (None, child, p) \<Rightarrow> (Inr (Error child), p))"

subsection \<open>Combinators\<close>

text \<open>
  The values behind the interfaces \<^verbatim>\<open>TimeCodec\<close>, \<^verbatim>\<open>TimeEncoder\<close> and
  \<^verbatim>\<open>TimeDecoder\<close>, by their dynamic type: the nil interface value, the four
  codecs, the package's wrappers, the two function types, and \<open>foreign\<close> for a type
  of another package that implements the methods. The type assertions of the
  source (\<^verbatim>\<open>decode.(*joinCodec)\<close>) are case distinctions on the constructor.
\<close>

datatype tcodec =
    nil
  | unixSecondsCodec
  | unixMillisecondsCodec
  | layoutCodec string
  | stdCodec
  | joinCodec tcodec tcodec
  | locEncoder tcodec Location
  | locDecoder tcodec Location
  | tryDecoder "tcodec list"
  | TimeDecoderFunc DecodeTimeFn
  | TimeEncoderFunc EncodeTimeFn
  | foreign EncodeTimeFn DecodeTimeFn

text \<open>\<open>joinCodec encode decode\<close>: the first field is the encoder.\<close>

definition resolveEncoder :: "tcodec \<Rightarrow> tcodec" where
  "resolveEncoder enc = (case enc of nil \<Rightarrow> nil | joinCodec encode decode \<Rightarrow> encode | _ \<Rightarrow> enc)"

definition resolveDecoder :: "tcodec \<Rightarrow> tcodec" where
  "resolveDecoder dec = (case dec of nil \<Rightarrow> nil | joinCodec encode decode \<Rightarrow> decode | _ \<Rightarrow> dec)"

definition Split :: "tcodec \<Rightarrow> tcodec \<times> tcodec" where
  "Split codec = (resolveDecoder codec, resolveEncoder codec)"

definition Join :: "tcodec \<Rightarrow> tcodec \<Rightarrow> tcodec" where
  "Join decode encode =
     (let decode1 = (case decode of joinCodec e d \<Rightarrow> d | _ \<Rightarrow> decode);
          encode1 = (case encode of joinCodec e d \<Rightarrow> e | _ \<Rightarrow> encode)
      in joinCodec (resolveEncoder encode1) (resolveDecoder decode1))"

definition EncodeIn :: "Location \<Rightarrow> tcodec \<Rightarrow> tcodec" where
  "EncodeIn loc enc =
     (let enc1 = resolveEncoder enc;
          enc2 = (case enc1 of locEncoder encode l \<Rightarrow> resolveEncoder encode | _ \<Rightarrow> enc1)
      in locEncoder (resolveEncoder enc2) loc)"

definition DecodeIn :: "Location \<Rightarrow> tcodec \<Rightarrow> tcodec" where
  "DecodeIn loc dec =
     (let dec1 = resolveDecoder dec;
          dec2 = (case dec1 of locDecoder decode l \<Rightarrow> resolveDecoder decode | _ \<Rightarrow> dec1)
      in locDecoder dec2 loc)"

definition In :: "Location \<Rightarrow> tcodec \<Rightarrow> tcodec" where
  "In loc codec = joinCodec (EncodeIn loc codec) (DecodeIn loc codec)"

definition TryDecoders :: "tcodec \<Rightarrow> tcodec list \<Rightarrow> tcodec" where
  "TryDecoders dec fallback = tryDecoder (dec # fallback)"

definition UnixSecondsCodec :: tcodec where "UnixSecondsCodec = unixSecondsCodec"
definition UnixMillisecondsCodec :: tcodec where "UnixMillisecondsCodec = unixMillisecondsCodec"
definition LayoutCodec :: "string \<Rightarrow> tcodec" where "LayoutCodec layout = layoutCodec layout"
definition StdCodec :: tcodec where "StdCodec = stdCodec"

text \<open>
  The wrapper types and their fields are not exported, so a program obtains a
  value of one of the three interfaces only from the package's constructors and
  combinators, from the function types, from its own types, or as nil. The three
  predicates say which values a program can hold at each interface.
\<close>

inductive TimeCodec :: "tcodec \<Rightarrow> bool"
  and TimeEncoder :: "tcodec \<Rightarrow> bool"
  and TimeDecoder :: "tcodec \<Rightarrow> bool" where
  codec_nil: "TimeCodec nil"
| codec_UnixSeconds: "TimeCodec UnixSecondsCodec"
| codec_UnixMilliseconds: "TimeCodec UnixMillisecondsCodec"
| codec_Layout: "TimeCodec (LayoutCodec layout)"
| codec_Std: "TimeCodec StdCodec"
| codec_foreign: "TimeCodec (foreign ef df)"
| codec_Join: "TimeDecoder d \<Longrightarrow> TimeEncoder e \<Longrightarrow> TimeCodec (Join d e)"
| codec_In: "TimeCodec c \<Longrightarrow> TimeCodec (In loc c)"
| enc_codec: "TimeCodec c \<Longrightarrow> TimeEncoder c"
| enc_Func: "TimeEncoder (TimeEncoderFunc ef)"
| enc_foreign: "TimeEncoder (foreign ef df)"
| enc_Split: "TimeCodec c \<Longrightarrow> TimeEncoder (snd (Split c))"
| enc_EncodeIn: "TimeEncoder e \<Longrightarrow> TimeEncoder (EncodeIn loc e)"
| dec_codec: "TimeCodec c \<Longrightarrow> TimeDecoder c"
| dec_Func: "TimeDecoder (TimeDecoderFunc df)"
| dec_foreign: "TimeDecoder (foreign ef df)"
| dec_Split: "TimeCodec c \<Longrightarrow> TimeDecoder (fst (Split c))"
| dec_DecodeIn: "TimeDecoder d \<Longrightarrow> TimeDecoder (DecodeIn loc d)"
| dec_TryDecoders: "TimeDecoder d \<Longrightarrow> \<forall>x \<in> set ds. TimeDecoder x \<Longrightarrow> TimeDecoder (TryDecoders d ds)"

definition is_joinCodec :: "tcodec \<Rightarrow> bool" where
  "is_joinCodec c = (case c of joinCodec e d \<Rightarrow> True | _ \<Rightarrow> False)"

text \<open>
  The shape every such value has: no \<open>joinCodec\<close> stands directly in a field of a
  \<open>joinCodec\<close>, of a \<open>locEncoder\<close> or of a \<open>locDecoder\<close>.
\<close>

fun unnested :: "tcodec \<Rightarrow> bool" where
  "unnested (joinCodec e d) = (\<not> is_joinCodec e \<and> \<not> is_joinCodec d \<and> unnested e \<and> unnested d)"
| "unnested (locEncoder e l) = (\<not> is_joinCodec e \<and> unnested e)"
| "unnested (locDecoder d l) = (\<not> is_joinCodec d \<and> unnested d)"
| "unnested (tryDecoder ds) = list_all unnested ds"
| "unnested c = True"

text \<open>What a location wrapper wraps; any other value is left as it is.\<close>

definition strip_locEncoder :: "tcodec \<Rightarrow> tcodec" where
  "strip_locEncoder e = (case e of locEncoder x l \<Rightarrow> x | _ \<Rightarrow> e)"

definition strip_locDecoder :: "tcodec \<Rightarrow> tcodec" where
  "strip_locDecoder d = (case d of locDecoder x l \<Rightarrow> x | _ \<Rightarrow> d)"

section \<open>Properties of the scanners\<close>

subsection \<open>The account id scanner\<close>

lemma match_digits_Some:
  "match_digits n s = Some r \<longleftrightarrow> n \<le> length s \<and> list_all isDigit (take n s) \<and> r = drop n s"
proof (induction n s rule: match_digits.induct)
  case (1 s)
  show ?case by auto
next
  case (2 n)
  show ?case by simp
next
  case (3 n c s)
  then show ?case by auto
qed

lemma awsAccountIDRegex_MatchString_iff:
  "awsAccountIDRegex_MatchString s \<longleftrightarrow> length s = 12 \<and> list_all isDigit s"
  unfolding awsAccountIDRegex_MatchString_def match_digits_Some by auto

text \<open>
  Claim C5. The account id scanner writes its input, in one call with that single
  value, to the account id field when the input is exactly twelve ASCII digits; for
  every other input (another length, or some byte that is not a digit) the writer is
  left as it was.
\<close>

theorem C5_ScanAccountID:
  "ScanAccountID w input =
     (if length input = 12 \<and> list_all isDigit input
      then w @ [(FieldAccountID, [input])]
      else w)"
  by (simp add: ScanAccountID_def awsAccountIDRegex_MatchString_iff WriteValues_def)

subsection \<open>The ARN scanner\<close>

lemma LastIndex_from_eq:
  "LastIndex_from c s i found =
     (if c \<in> set s
      then i + int (length s) - 1 - int (length (takeWhile (\<lambda>x. x \<noteq> c) (rev s)))
      else found)"
proof (induction s arbitrary: i found)
  case Nil
  show ?case by simp
next
  case (Cons x xs)
  show ?case
  proof (cases "c \<in> set xs")
    case True
    then have "takeWhile (\<lambda>x. x \<noteq> c) (rev xs @ [x]) = takeWhile (\<lambda>x. x \<noteq> c) (rev xs)"
      by (intro takeWhile_append1[of c]) auto
    with True show ?thesis by (simp add: Cons.IH)
  next
    case False
    then have tw: "takeWhile (\<lambda>x. x \<noteq> c) (rev xs @ [x]) = rev xs @ takeWhile (\<lambda>x. x \<noteq> c) [x]"
      by (intro takeWhile_append2) auto
    show ?thesis
    proof (cases "x = c")
      case True
      with False tw have "length (takeWhile (\<lambda>x. x \<noteq> c) (rev xs @ [x])) = length xs"
        by simp
      with False True show ?thesis by (simp add: Cons.IH)
    next
      case neq: False
      with False show ?thesis by (simp add: Cons.IH)
    qed
  qed
qed

lemma after_last_slash_length:
  "length (after_last_slash s) \<le> length s"
  unfolding after_last_slash_def using length_takeWhile_le[of _ "rev s"] by simp

lemma drop_after_last_slash:
  "drop (length s - length (after_last_slash s)) s = after_last_slash s"
proof -
  let ?k = "length (takeWhile (\<lambda>c. c \<noteq> CHR ''/'') (rev s))"
  have "after_last_slash s = rev (take ?k (rev s))"
    unfolding after_last_slash_def using takeWhile_eq_take[of _ "rev s"] by simp
  also have "\<dots> = drop (length s - ?k) s"
    by (simp add: take_rev)
  finally show ?thesis by (simp add: after_last_slash_def)
qed

lemma after_last_slash_Nil_iff:
  "s \<noteq> [] \<Longrightarrow> after_last_slash s = [] \<longleftrightarrow> last s = CHR ''/''"
  unfolding after_last_slash_def
  by (cases s rule: rev_cases) auto

lemma ScanInstanceID_short: "length x < 2 \<Longrightarrow> ScanInstanceID w x = w"
  unfolding ScanInstanceID_def by (auto simp: prefix_def)

lemma slash_in_instance: "prefix ''instance/'' s \<Longrightarrow> CHR ''/'' \<in> set s \<and> s \<noteq> []"
  by (auto simp: prefix_def)

lemma scanResourceInstanceID_spec:
  "scanResourceInstanceID w input = spec_scanResource w input"
proof (cases "prefix ''instance/'' input")
  case False
  then show ?thesis by (simp add: scanResourceInstanceID_def spec_scanResource_def)
next
  case True
  let ?a = "after_last_slash input"
  from True have sl: "CHR ''/'' \<in> set input" and ne: "input \<noteq> []"
    using slash_in_instance by blast+
  have idx: "strings_LastIndex input (CHR ''/'') = int (length input) - 1 - int (length ?a)"
    using sl by (simp add: strings_LastIndex_def LastIndex_from_eq after_last_slash_def)
  have le: "length ?a \<le> length input" by (rule after_last_slash_length)
  have dr: "drop (nat (strings_LastIndex input (CHR ''/'') + 1)) input = ?a"
  proof -
    have "nat (strings_LastIndex input (CHR ''/'') + 1) = length input - length ?a"
      using idx le by simp
    then show ?thesis by (simp add: drop_after_last_slash)
  qed
  have cond: "strings_LastIndex input (CHR ''/'') < int (length input) - 2 \<longleftrightarrow> 2 \<le> length ?a"
    using idx by auto
  show ?thesis
  proof (cases "2 \<le> length ?a")
    case long: True
    then have "?a \<noteq> []" by auto
    then have "last input \<noteq> CHR ''/''" using after_last_slash_Nil_iff[OF ne] by simp
    with True long cond dr show ?thesis
      by (simp add: scanResourceInstanceID_def spec_scanResource_def)
  next
    case short: False
    then have "ScanInstanceID w ?a = w" by (intro ScanInstanceID_short) simp
    with True short cond show ?thesis
      by (simp add: scanResourceInstanceID_def spec_scanResource_def)
  qed
qed

text \<open>
  The guard of the source, \<^verbatim>\<open>slashIndex < len(input)-2\<close>, also turns away a
  resource with exactly one character after its last slash. The instance id scanner
  writes nothing for a text that short, so the writer ends up the same.
\<close>

lemma scanResourceInstanceID_one_char:
  "scanResourceInstanceID w ''instance/x'' = w \<and> ScanInstanceID w ''x'' = w"
  by (simp add: scanResourceInstanceID_spec spec_scanResource_def after_last_slash_def
      ScanInstanceID_def)

text \<open>
  Claim C4. When the ARN parser rejects the input, \<open>ScanARN\<close> leaves the writer as
  it was (and it has no error to return). When the parser accepts it, the raw input
  is written to the ARN field, the account id scanner runs on the parsed account id,
  and the instance id scanner runs on the text after the last slash of the parsed
  resource exactly when the resource begins with \<^verbatim>\<open>instance/\<close> and that last slash
  is not its final character.
\<close>

theorem C4_ScanARN:
  "ScanARN parse w input =
     (case parse input of
        None \<Rightarrow> w
      | Some a \<Rightarrow>
          (let w1 = ScanAccountID (WriteValues w FieldARN [input]) (AccountID a)
           in if prefix ''instance/'' (Resource a) \<and> last (Resource a) \<noteq> CHR ''/''
              then ScanInstanceID w1 (after_last_slash (Resource a))
              else w1))"
  by (simp add: ScanARN_def scanResourceInstanceID_spec spec_scanResource_def Let_def
      split: option.split)

text \<open>The examples of the specification, with the SDK's parser.\<close>

lemma ScanARN_instance:
  "ScanARN arn_Parse [] ''arn:aws:ec2:us-east-1:123456789012:instance/i-0abcd1234'' =
     [(FieldARN, [''arn:aws:ec2:us-east-1:123456789012:instance/i-0abcd1234'']),
      (FieldAccountID, [''123456789012'']), (FieldInstanceID, [''i-0abcd1234''])]"
  by code_simp

lemma ScanARN_trailing_slash:
  "ScanARN arn_Parse [] ''arn:aws:ec2:us-east-1:123456789012:instance/'' =
     [(FieldARN, [''arn:aws:ec2:us-east-1:123456789012:instance/'']),
      (FieldAccountID, [''123456789012''])]"
  by code_simp

lemma ScanARN_not_an_arn: "ScanARN arn_Parse [] ''not-an-arn'' = []"
  by code_simp

subsection \<open>The row's append methods\<close>

lemma set_AppendAnyString: "set (AppendAnyString any vs) = set any \<union> set vs"
  by (induction vs arbitrary: any) auto

lemma members_Some_Append:
  "members (Some (AppendAnyString (lazy_create p) vs)) = members p \<union> set vs"
  by (cases p) (simp_all add: members_def lazy_create_def NewPantherAnyString_def set_AppendAnyString)

lemma members_AppendAnyAWSAccountIds:
  "members (PantherAnyAWSAccountIds (AppendAnyAWSAccountIds pl vs)) =
     members (PantherAnyAWSAccountIds pl) \<union> set (filter awsAccountIDRegex_MatchString vs)"
proof (induction vs arbitrary: pl)
  case Nil
  show ?case by simp
next
  case (Cons v vs)
  show ?case
  proof (cases "awsAccountIDRegex_MatchString v")
    case True
    then show ?thesis
      by (simp add: Cons.IH members_Some_Append del: AppendAnyString.simps)
  next
    case False
    then show ?thesis by (simp add: Cons.IH)
  qed
qed

lemma AppendAnyAWSAccountIds_no_match:
  "\<forall>v \<in> set vs. \<not> awsAccountIDRegex_MatchString v \<Longrightarrow> AppendAnyAWSAccountIds pl vs = pl"
  by (induction vs arbitrary: pl) auto

text \<open>
  Claim C9, as stated, asks that every value handed to an append method is stored.
  \<open>AppendAnyAWSAccountIds\<close> checks each value against the account id pattern first
  and skips a value that does not match: the row is left as it was.
\<close>

theorem C9_counterexample:
  "AppendAnyAWSAccountIds empty_row [''not-an-account-id''] = empty_row \<and>
   ''not-an-account-id'' \<notin>
     members (PantherAnyAWSAccountIds (AppendAnyAWSAccountIds empty_row [''not-an-account-id'']))"
  by (simp add: awsAccountIDRegex_MatchString_iff empty_row_def members_def)

text \<open>
  Claim C9, amended. \<open>AppendAnyAWSInstanceIds\<close>, \<open>AppendAnyAWSARNs\<close> and
  \<open>AppendAnyAWSTags\<close> store every value they are given: afterwards the collection
  holds its earlier members and all the values. \<open>AppendAnyAWSAccountIds\<close> validates:
  afterwards the collection holds its earlier members and exactly those values that
  match the account id pattern.
\<close>

theorem C9_writers:
  "members (PantherAnyAWSInstanceIds (AppendAnyAWSInstanceIds pl vs)) =
     members (PantherAnyAWSInstanceIds pl) \<union> set vs \<and>
   members (PantherAnyAWSARNs (AppendAnyAWSARNs pl vs)) =
     members (PantherAnyAWSARNs pl) \<union> set vs \<and>
   members (PantherAnyAWSTags (AppendAnyAWSTags pl vs)) =
     members (PantherAnyAWSTags pl) \<union> set vs \<and>
   members (PantherAnyAWSAccountIds (AppendAnyAWSAccountIds pl vs)) =
     members (PantherAnyAWSAccountIds pl) \<union> set (filter awsAccountIDRegex_MatchString vs)"
  by (simp add: AppendAnyAWSInstanceIds_def AppendAnyAWSARNs_def AppendAnyAWSTags_def
      members_Some_Append members_AppendAnyAWSAccountIds)

text \<open>
  Claim C10. Appending an empty list of values with \<open>AppendAnyAWSInstanceIds\<close>,
  \<open>AppendAnyAWSARNs\<close> or \<open>AppendAnyAWSTags\<close> to a row whose field is nil changes
  the row: the field now points to a new, empty collection. \<open>AppendAnyAWSAccountIds\<close>
  leaves the whole row as it was when no value matches the account id pattern; when
  some value matches, its field is not nil afterwards.
\<close>

theorem C10_empty_append:
  "(PantherAnyAWSInstanceIds pl = None \<longrightarrow>
      PantherAnyAWSInstanceIds (AppendAnyAWSInstanceIds pl []) = Some NewPantherAnyString \<and>
      AppendAnyAWSInstanceIds pl [] \<noteq> pl) \<and>
   (PantherAnyAWSARNs pl = None \<longrightarrow>
      PantherAnyAWSARNs (AppendAnyAWSARNs pl []) = Some NewPantherAnyString \<and>
      AppendAnyAWSARNs pl [] \<noteq> pl) \<and>
   (PantherAnyAWSTags pl = None \<longrightarrow>
      PantherAnyAWSTags (AppendAnyAWSTags pl []) = Some NewPantherAnyString \<and>
      AppendAnyAWSTags pl [] \<noteq> pl) \<and>
   ((\<forall>v \<in> set vs. \<not> awsAccountIDRegex_MatchString v) \<longrightarrow> AppendAnyAWSAccountIds pl vs = pl) \<and>
   ((\<exists>v \<in> set vs. awsAccountIDRegex_MatchString v) \<longrightarrow>
      PantherAnyAWSAccountIds (AppendAnyAWSAccountIds pl vs) \<noteq> None)"
proof -
  have a: "PantherAnyAWSInstanceIds pl = None \<Longrightarrow>
      PantherAnyAWSInstanceIds (AppendAnyAWSInstanceIds pl []) = Some NewPantherAnyString"
    by (simp add: AppendAnyAWSInstanceIds_def lazy_create_def)
  have b: "PantherAnyAWSARNs pl = None \<Longrightarrow>
      PantherAnyAWSARNs (AppendAnyAWSARNs pl []) = Some NewPantherAnyString"
    by (simp add: AppendAnyAWSARNs_def lazy_create_def)
  have c: "PantherAnyAWSTags pl = None \<Longrightarrow>
      PantherAnyAWSTags (AppendAnyAWSTags pl []) = Some NewPantherAnyString"
    by (simp add: AppendAnyAWSTags_def lazy_create_def)
  have d: "PantherAnyAWSAccountIds (AppendAnyAWSAccountIds pl vs) \<noteq> None"
    if "\<exists>v \<in> set vs. awsAccountIDRegex_MatchString v"
  proof
    assume "PantherAnyAWSAccountIds (AppendAnyAWSAccountIds pl vs) = None"
    then have "members (PantherAnyAWSAccountIds (AppendAnyAWSAccountIds pl vs)) = {}"
      by (simp add: members_def)
    with that show False
      by (auto simp: members_AppendAnyAWSAccountIds)
  qed
  from a b c d AppendAnyAWSAccountIds_no_match[of vs pl] show ?thesis by force
qed

theorem C10_witness:
  "PantherAnyAWSInstanceIds empty_row = None \<and>
   PantherAnyAWSInstanceIds (AppendAnyAWSInstanceIds empty_row []) = Some [] \<and>
   AppendAnyAWSInstanceIds empty_row [] \<noteq> empty_row \<and>
   PantherAnyAWSARNs empty_row = None \<and>
   PantherAnyAWSARNs (AppendAnyAWSARNs empty_row []) = Some [] \<and>
   PantherAnyAWSTags empty_row = None \<and>
   PantherAnyAWSTags (AppendAnyAWSTags empty_row []) = Some [] \<and>
   \<not> awsAccountIDRegex_MatchString ''12345678901'' \<and>
   \<not> awsAccountIDRegex_MatchString ''12345678901x'' \<and>
   AppendAnyAWSAccountIds empty_row [''12345678901'', ''12345678901x''] = empty_row \<and>
   awsAccountIDRegex_MatchString ''123456789012'' \<and>
   PantherAnyAWSAccountIds (AppendAnyAWSAccountIds empty_row [''x'', ''123456789012'']) \<noteq> None"
proof -
  have i: "PantherAnyAWSInstanceIds empty_row = None"
    and r: "PantherAnyAWSARNs empty_row = None"
    and t: "PantherAnyAWSTags empty_row = None"
    by (simp_all add: empty_row_def)
  have n: "\<forall>v \<in> set [''12345678901'', ''12345678901x'']. \<not> awsAccountIDRegex_MatchString v"
    by (simp add: awsAccountIDRegex_MatchString_iff isDigit_def)
  have m: "awsAccountIDRegex_MatchString ''123456789012''"
    by (simp add: awsAccountIDRegex_MatchString_iff isDigit_def)
  then have e: "\<exists>v \<in> set [''x'', ''123456789012'']. awsAccountIDRegex_MatchString v"
    by simp
  from i r t n m C10_empty_append[of empty_row "[''12345678901'', ''12345678901x'']"]
    C10_empty_append[of empty_row "[''x'', ''123456789012'']", THEN conjunct2, THEN conjunct2,
      THEN conjunct2, THEN conjunct2, rule_format, OF e]
  show ?thesis by (simp add: NewPantherAnyString_def)
qed

section \<open>Properties of the time codecs\<close>

subsection \<open>Combinators do not nest\<close>

lemma resolveEncoder_unnested:
  "unnested e \<Longrightarrow> unnested (resolveEncoder e) \<and> \<not> is_joinCodec (resolveEncoder e)"
  by (cases e) (auto simp: resolveEncoder_def is_joinCodec_def)

lemma resolveDecoder_unnested:
  "unnested d \<Longrightarrow> unnested (resolveDecoder d) \<and> \<not> is_joinCodec (resolveDecoder d)"
  by (cases d) (auto simp: resolveDecoder_def is_joinCodec_def)

lemma resolveEncoder_id: "\<not> is_joinCodec e \<Longrightarrow> resolveEncoder e = e"
  by (cases e) (auto simp: resolveEncoder_def is_joinCodec_def)

lemma resolveDecoder_id: "\<not> is_joinCodec d \<Longrightarrow> resolveDecoder d = d"
  by (cases d) (auto simp: resolveDecoder_def is_joinCodec_def)

lemma resolveEncoder_unwrap:
  "unnested e \<Longrightarrow> resolveEncoder (case e of joinCodec a b \<Rightarrow> a | _ \<Rightarrow> e) = resolveEncoder e"
  by (cases e) (simp_all add: resolveEncoder_id, simp add: resolveEncoder_def)

lemma resolveDecoder_unwrap:
  "unnested d \<Longrightarrow> resolveDecoder (case d of joinCodec a b \<Rightarrow> b | _ \<Rightarrow> d) = resolveDecoder d"
  by (cases d) (simp_all add: resolveDecoder_id, simp add: resolveDecoder_def)

lemma Join_eq:
  "unnested d \<Longrightarrow> unnested e \<Longrightarrow> Join d e = joinCodec (resolveEncoder e) (resolveDecoder d)"
  by (simp add: Join_def resolveEncoder_unwrap resolveDecoder_unwrap)

lemma unnested_Join: "unnested d \<Longrightarrow> unnested e \<Longrightarrow> unnested (Join d e)"
  by (simp add: Join_eq resolveEncoder_unnested resolveDecoder_unnested)

lemma EncodeIn_eq:
  "unnested e \<Longrightarrow> EncodeIn loc e = locEncoder (strip_locEncoder (resolveEncoder e)) loc"
proof -
  assume u: "unnested e"
  let ?e1 = "resolveEncoder e"
  from u have u1: "unnested ?e1" and nj: "\<not> is_joinCodec ?e1"
    using resolveEncoder_unnested by blast+
  show ?thesis
  proof (cases ?e1)
    case (locEncoder x l)
    with u1 have "\<not> is_joinCodec x" by simp
    then have "resolveEncoder x = x" by (rule resolveEncoder_id)
    with locEncoder show ?thesis by (simp add: EncodeIn_def strip_locEncoder_def)
  qed (use nj in \<open>simp_all add: EncodeIn_def strip_locEncoder_def resolveEncoder_def is_joinCodec_def\<close>)
qed

lemma DecodeIn_eq:
  "unnested d \<Longrightarrow> DecodeIn loc d = locDecoder (strip_locDecoder (resolveDecoder d)) loc"
proof -
  assume u: "unnested d"
  let ?d1 = "resolveDecoder d"
  from u have u1: "unnested ?d1" and nj: "\<not> is_joinCodec ?d1"
    using resolveDecoder_unnested by blast+
  show ?thesis
  proof (cases ?d1)
    case (locDecoder x l)
    with u1 have "\<not> is_joinCodec x" by simp
    then have "resolveDecoder x = x" by (rule resolveDecoder_id)
    with locDecoder show ?thesis by (simp add: DecodeIn_def strip_locDecoder_def)
  qed (simp_all add: DecodeIn_def strip_locDecoder_def)
qed

lemma strip_locEncoder_unnested:
  "unnested e \<Longrightarrow> \<not> is_joinCodec e \<Longrightarrow>
     unnested (strip_locEncoder e) \<and> \<not> is_joinCodec (strip_locEncoder e)"
  by (cases e) (auto simp: strip_locEncoder_def)

lemma strip_locDecoder_unnested:
  "unnested d \<Longrightarrow> \<not> is_joinCodec d \<Longrightarrow>
     unnested (strip_locDecoder d) \<and> \<not> is_joinCodec (strip_locDecoder d)"
  by (cases d) (auto simp: strip_locDecoder_def)

lemma unnested_EncodeIn: "unnested e \<Longrightarrow> unnested (EncodeIn loc e)"
  using strip_locEncoder_unnested[of "resolveEncoder e"] resolveEncoder_unnested[of e]
  by (simp add: EncodeIn_eq)

lemma unnested_DecodeIn: "unnested d \<Longrightarrow> unnested (DecodeIn loc d)"
  using strip_locDecoder_unnested[of "resolveDecoder d"] resolveDecoder_unnested[of d]
  by (simp add: DecodeIn_eq)

lemma not_join_EncodeIn: "\<not> is_joinCodec (EncodeIn loc e)"
  by (simp add: EncodeIn_def is_joinCodec_def Let_def)

lemma not_join_DecodeIn: "\<not> is_joinCodec (DecodeIn loc d)"
  by (simp add: DecodeIn_def is_joinCodec_def Let_def)

lemma unnested_In: "unnested c \<Longrightarrow> unnested (In loc c)"
  by (simp add: In_def unnested_EncodeIn unnested_DecodeIn not_join_EncodeIn not_join_DecodeIn)

lemma interfaces_unnested:
  shows "TimeCodec c \<Longrightarrow> unnested c"
    and "TimeEncoder e \<Longrightarrow> unnested e"
    and "TimeDecoder d \<Longrightarrow> unnested d"
proof (induction rule: TimeCodec_TimeEncoder_TimeDecoder.inducts)
qed (auto simp: UnixSecondsCodec_def UnixMillisecondsCodec_def LayoutCodec_def StdCodec_def
      unnested_Join unnested_In unnested_EncodeIn unnested_DecodeIn Split_def
      resolveEncoder_unnested resolveDecoder_unnested TryDecoders_def list_all_iff)

text \<open>
  Claim C6. For every decoder \<open>d\<close> and encoder \<open>e\<close> a program can hold, joining the
  joined codec with itself gives the joined codec back, and the fields of the
  result are not \<open>joinCodec\<close> values; a second location override of an encoder or
  of a decoder replaces the first one.
\<close>

theorem C6_combinators:
  assumes "TimeDecoder d" and "TimeEncoder e"
  shows "Join (Join d e) (Join d e) = Join d e
       \<and> (\<exists>e1 d1. Join (Join d e) (Join d e) = joinCodec e1 d1
             \<and> \<not> is_joinCodec e1 \<and> \<not> is_joinCodec d1)
       \<and> EncodeIn locB (EncodeIn locA e) = EncodeIn locB e
       \<and> DecodeIn locB (DecodeIn locA d) = DecodeIn locB d"
proof -
  from assms have ud: "unnested d" and ue: "unnested e"
    by (simp_all add: interfaces_unnested)
  let ?j = "Join d e"
  have uj: "unnested ?j" using ud ue by (rule unnested_Join)
  have j: "?j = joinCodec (resolveEncoder e) (resolveDecoder d)"
    using ud ue by (rule Join_eq)
  have ne: "\<not> is_joinCodec (resolveEncoder e)" and nd: "\<not> is_joinCodec (resolveDecoder d)"
    using ud ue resolveEncoder_unnested resolveDecoder_unnested by blast+
  have jj: "Join ?j ?j = ?j"
    using ne nd by (simp add: Join_eq[OF uj uj]) (simp add: j resolveEncoder_def resolveDecoder_def)
  have se: "\<not> is_joinCodec (strip_locEncoder (resolveEncoder e))"
    using strip_locEncoder_unnested[of "resolveEncoder e"] resolveEncoder_unnested[OF ue] by simp
  have sd: "\<not> is_joinCodec (strip_locDecoder (resolveDecoder d))"
    using strip_locDecoder_unnested[of "resolveDecoder d"] resolveDecoder_unnested[OF ud] by simp
  have re: "resolveEncoder (locEncoder x l) = locEncoder x l"
    and rd: "resolveDecoder (locDecoder x l) = locDecoder x l" for x l
    by (simp_all add: resolveEncoder_def resolveDecoder_def)
  have st: "strip_locEncoder (locEncoder x l) = x" "strip_locDecoder (locDecoder x l) = x" for x l
    by (simp_all add: strip_locEncoder_def strip_locDecoder_def)
  have "EncodeIn locB (EncodeIn locA e) =
          locEncoder (strip_locEncoder (resolveEncoder (EncodeIn locA e))) locB"
    using unnested_EncodeIn[OF ue] by (rule EncodeIn_eq)
  then have ee: "EncodeIn locB (EncodeIn locA e) = EncodeIn locB e"
    by (simp add: EncodeIn_eq[OF ue] re st)
  have "DecodeIn locB (DecodeIn locA d) =
          locDecoder (strip_locDecoder (resolveDecoder (DecodeIn locA d))) locB"
    using unnested_DecodeIn[OF ud] by (rule DecodeIn_eq)
  then have dd: "DecodeIn locB (DecodeIn locA d) = DecodeIn locB d"
    by (simp add: DecodeIn_eq[OF ud] rd st)
  from jj j ne nd ee dd show ?thesis by simp
qed

theorem C6_witness:
  "TimeDecoder (DecodeIn UTC UnixSecondsCodec) \<and> TimeEncoder (In Local (LayoutCodec ''2006-01-02''))
   \<and> Join (Join (DecodeIn UTC UnixSecondsCodec) (In Local (LayoutCodec ''2006-01-02'')))
          (Join (DecodeIn UTC UnixSecondsCodec) (In Local (LayoutCodec ''2006-01-02'')))
       = joinCodec (locEncoder (layoutCodec ''2006-01-02'') Local) (locDecoder unixSecondsCodec UTC)
   \<and> EncodeIn (Zone ''Europe/Athens'') (EncodeIn UTC (In Local (LayoutCodec ''2006-01-02'')))
       = locEncoder (layoutCodec ''2006-01-02'') (Zone ''Europe/Athens'')
   \<and> DecodeIn (Zone ''Europe/Athens'') (DecodeIn UTC (DecodeIn UTC UnixSecondsCodec))
       = locDecoder unixSecondsCodec (Zone ''Europe/Athens'')"
proof -
  have d: "TimeDecoder (DecodeIn UTC UnixSecondsCodec)"
    by (intro dec_DecodeIn dec_codec codec_UnixSeconds)
  have e: "TimeEncoder (In Local (LayoutCodec ''2006-01-02''))"
    by (intro enc_codec codec_In codec_Layout)
  have v: "Join (DecodeIn UTC UnixSecondsCodec) (In Local (LayoutCodec ''2006-01-02''))
      = joinCodec (locEncoder (layoutCodec ''2006-01-02'') Local) (locDecoder unixSecondsCodec UTC)"
    "EncodeIn (Zone ''Europe/Athens'') (In Local (LayoutCodec ''2006-01-02''))
       = locEncoder (layoutCodec ''2006-01-02'') (Zone ''Europe/Athens'')"
    "DecodeIn (Zone ''Europe/Athens'') (DecodeIn UTC UnixSecondsCodec)
       = locDecoder unixSecondsCodec (Zone ''Europe/Athens'')"
    by (simp_all add: Join_def In_def EncodeIn_def DecodeIn_def resolveEncoder_def
        resolveDecoder_def LayoutCodec_def UnixSecondsCodec_def)
  from C6_combinators[OF d e, where locA = UTC and locB = "Zone ''Europe/Athens''"] d e v
  show ?thesis by simp
qed

subsection \<open>Encoding the zero time\<close>

lemma stdCodec_EncodeTime_eq:
  "stdCodec_EncodeTime L tm stream =
     stream @ [WBytes (CHR 0x22 # lib_time_Format L tm (RFC3339Nano @ [CHR 0x22]))]"
  by (simp add: stdCodec_EncodeTime_def Buffer_def SetBuffer_def AppendFormat_def
      layoutRFC3339NanoJSON_def RFC3339Nano_def)

lemma layoutCodec_EncodeTime_zero:
  "layoutCodec_EncodeTime L layout Time_zero stream = stream @ [WString (time_Format L Time_zero layout)]
   \<and> \<not> json_null (WString (time_Format L Time_zero layout))"
  by (simp add: layoutCodec_EncodeTime_def WriteString_def json_null_def)

text \<open>
  Claim C1, as stated, asks every codec to encode the zero time as a JSON null. The
  standard codec has no test for the zero time: it appends the time formatted with
  the quoted \<^verbatim>\<open>RFC3339Nano\<close> layout, a text that starts with a double quote.
\<close>

theorem C1_counterexample:
  "\<forall>L. stdCodec_EncodeTime L Time_zero [] =
          [WBytes (CHR 0x22 # lib_time_Format L Time_zero (RFC3339Nano @ [CHR 0x22]))] \<and>
        \<not> list_ex json_null (stdCodec_EncodeTime L Time_zero [])"
  by (simp add: stdCodec_EncodeTime_eq json_null_def)

text \<open>
  Claim C1, amended. The epoch-seconds codec and the epoch-milliseconds codec encode
  a zero time as a JSON null. The standard codec encodes every time, the zero time
  too, as the text of the quoted \<^verbatim>\<open>RFC3339Nano\<close> layout, which is never a null.
\<close>

theorem C1_zero_encoding:
  "(IsZero tm \<longrightarrow> unixSecondsCodec_EncodeTime tm stream = stream @ [WNil]) \<and>
   (IsZero tm \<longrightarrow> unixMillisecondsCodec_EncodeTime tm stream = stream @ [WNil]) \<and>
   stdCodec_EncodeTime L tm stream =
     stream @ [WBytes (CHR 0x22 # lib_time_Format L tm (RFC3339Nano @ [CHR 0x22]))] \<and>
   \<not> json_null (WBytes (CHR 0x22 # lib_time_Format L tm (RFC3339Nano @ [CHR 0x22])))"
  by (simp add: unixSecondsCodec_EncodeTime_def unixMillisecondsCodec_EncodeTime_def
      stdCodec_EncodeTime_eq WriteNil_def json_null_def)

theorem C1_witness:
  "IsZero Time_zero \<and> IsZero (Time_In Time_zero Local) \<and>
   unixSecondsCodec_EncodeTime Time_zero [] = [WNil] \<and>
   unixMillisecondsCodec_EncodeTime (Time_In Time_zero Local) [] = [WNil]"
proof -
  have z: "IsZero Time_zero" "IsZero (Time_In Time_zero Local)"
    by (simp_all add: IsZero_def Time_zero_def Time_In_def)
  from z C1_zero_encoding[of Time_zero "[]"] C1_zero_encoding[of "Time_In Time_zero Local" "[]"]
  show ?thesis by simp
qed

subsection \<open>Decoding null and the empty string\<close>

lemma stdCodec_DecodeTime_null:
  "stdCodec_DecodeTime L \<lparr>buf = JNil # rest, Error = None\<rparr> =
     (Time_zero, \<lparr>buf = rest, Error = Some (Reported ''DecodeTime''
        ''parsing time: cannot parse the empty text as 2006'')\<rparr>)"
  by (simp add: stdCodec_DecodeTime_def ReadString_def time_Parse_def ReportError_def)

text \<open>
  Claim C2, as stated, asks every codec to decode the empty JSON string without an
  error. The standard codec parses whatever string it reads with \<^verbatim>\<open>time.RFC3339\<close>,
  and the empty text does not parse: the zero time comes back, with an error.
\<close>

theorem C2_counterexample:
  "\<forall>L. stdCodec_DecodeTime L \<lparr>buf = [JString []], Error = None\<rparr> =
          (Time_zero, \<lparr>buf = [], Error = Some (Reported ''DecodeTime''
             ''parsing time: cannot parse the empty text as 2006'')\<rparr>) \<and>
        Error (snd (stdCodec_DecodeTime L \<lparr>buf = [JString []], Error = None\<rparr>)) \<noteq> None"
  by (simp add: stdCodec_DecodeTime_def ReadString_def time_Parse_def ReportError_def)

text \<open>
  Claim C2, amended. The epoch-seconds, the epoch-milliseconds and the layout codec
  decode a JSON null and the empty JSON string to the zero time; they consume the
  value and leave the error of the iterator as it was. The standard codec decodes
  the empty JSON string to the zero time and reports a decode error.
\<close>

theorem C2_null_and_empty:
  "((v = JNil \<or> v = JString []) \<longrightarrow>
      unixSecondsCodec_DecodeTime L \<lparr>buf = v # rest, Error = err\<rparr> =
        (Time_zero, \<lparr>buf = rest, Error = err\<rparr>) \<and>
      unixMillisecondsCodec_DecodeTime L \<lparr>buf = v # rest, Error = err\<rparr> =
        (Time_zero, \<lparr>buf = rest, Error = err\<rparr>) \<and>
      layoutCodec_DecodeTime L layout \<lparr>buf = v # rest, Error = err\<rparr> =
        (Time_zero, \<lparr>buf = rest, Error = err\<rparr>)) \<and>
   stdCodec_DecodeTime L \<lparr>buf = JString [] # rest, Error = None\<rparr> =
     (Time_zero, \<lparr>buf = rest, Error = Some (Reported ''DecodeTime''
        ''parsing time: cannot parse the empty text as 2006'')\<rparr>)"
  by (auto simp: unixSecondsCodec_DecodeTime_def unixMillisecondsCodec_DecodeTime_def
      layoutCodec_DecodeTime_def stdCodec_DecodeTime_def WhatIsNext_def ReadNil_def
      ReadString_def time_Parse_def ReportError_def)

theorem C2_witness:
  "\<forall>L. unixSecondsCodec_DecodeTime L \<lparr>buf = [JNil], Error = None\<rparr> =
          (Time_zero, \<lparr>buf = [], Error = None\<rparr>) \<and>
        unixMillisecondsCodec_DecodeTime L \<lparr>buf = [JString []], Error = None\<rparr> =
          (Time_zero, \<lparr>buf = [], Error = None\<rparr>) \<and>
        layoutCodec_DecodeTime L ''2006-01-02'' \<lparr>buf = [JString []], Error = None\<rparr> =
          (Time_zero, \<lparr>buf = [], Error = None\<rparr>) \<and>
        layoutCodec_DecodeTime L ''2006-01-02'' \<lparr>buf = [JNil], Error = None\<rparr> =
          (Time_zero, \<lparr>buf = [], Error = None\<rparr>)"
proof
  fix L
  from C2_null_and_empty[of JNil L "[]" None "''2006-01-02''"]
       C2_null_and_empty[of "JString []" L "[]" None "''2006-01-02''"]
  show "unixSecondsCodec_DecodeTime L \<lparr>buf = [JNil], Error = None\<rparr> =
          (Time_zero, \<lparr>buf = [], Error = None\<rparr>) \<and>
        unixMillisecondsCodec_DecodeTime L \<lparr>buf = [JString []], Error = None\<rparr> =
          (Time_zero, \<lparr>buf = [], Error = None\<rparr>) \<and>
        layoutCodec_DecodeTime L ''2006-01-02'' \<lparr>buf = [JString []], Error = None\<rparr> =
          (Time_zero, \<lparr>buf = [], Error = None\<rparr>) \<and>
        layoutCodec_DecodeTime L ''2006-01-02'' \<lparr>buf = [JNil], Error = None\<rparr> =
          (Time_zero, \<lparr>buf = [], Error = None\<rparr>)"
    by simp
qed

subsection \<open>Epoch seconds and microseconds\<close>

lemma usec_eq: "float64_of_int64 (int64_quo Second 1000) = Finite 1000000"
  by code_simp

lemma sint_mult_1000:
  fixes w :: "64 word"
  assumes "- (2 ^ 63) \<le> sint w * 1000" "sint w * 1000 < 2 ^ 63"
  shows "sint (w * 1000) = sint w * 1000"
proof -
  have "sint (w * 1000) = signed_take_bit 63 (sint w * sint (1000 :: 64 word))"
    by (simp add: sint_word_mult)
  also have "sint (1000 :: 64 word) = 1000" by simp
  finally show ?thesis using assms
    by (simp add: signed_take_bit_int_eq_self)
qed

lemma UnixSeconds_eq:
  "UnixSeconds sec = time_Unix 0 (int64_of_float64 (fmul sec (Finite 1000000)) * 1000)"
  by (simp add: UnixSeconds_def Microsecond_def usec_eq)

text \<open>
  Claim C7, as stated, says that \<open>UnixSeconds\<close> always gives an instant on a whole
  microsecond. The count of microseconds is multiplied by \<open>1000\<close> in \<^verbatim>\<open>int64\<close>, and
  the product wraps around: for \<open>17179869184\<close> seconds (the year 2514) the instant is
  in 1929 and \<open>384\<close> nanoseconds past a whole microsecond.
\<close>

theorem C7_counterexample:
  "UnixSeconds (Finite 17179869184) = \<lparr>instant = - 1266874889709551616, location = Local\<rparr> \<and>
   instant (UnixSeconds (Finite 17179869184)) mod 1000 = 384"
  by code_simp

lemma encode_1577836800_5:
  "unixSecondsCodec_EncodeTime \<lparr>instant = 1577836800500000000, location = Local\<rparr> [] =
     [WFloat64 (Finite (15778368005 / 10))]"
  by code_simp

text \<open>
  Claim C7, amended. Whenever the count of microseconds times \<open>1000\<close> fits
  \<^verbatim>\<open>int64\<close>, \<open>UnixSeconds\<close> gives that many nanoseconds, an instant on a whole
  microsecond. Decoding the JSON number \<open>1577836800.5\<close> gives the instant
  \<open>1577836800500000000\<close>, and encoding that instant writes \<open>1577836800.5\<close> again: the
  round trip is exact, so within one microsecond.
\<close>

theorem C7_unix_seconds:
  "(- (2 ^ 63) \<le> sint (int64_of_float64 (fmul sec (Finite 1000000))) * 1000 \<and>
    sint (int64_of_float64 (fmul sec (Finite 1000000))) * 1000 < 2 ^ 63 \<longrightarrow>
      instant (UnixSeconds sec) = sint (int64_of_float64 (fmul sec (Finite 1000000))) * 1000 \<and>
      instant (UnixSeconds sec) mod 1000 = 0) \<and>
   fst (unixSecondsCodec_DecodeTime L \<lparr>buf = JNumber (15778368005 / 10) # rest, Error = err\<rparr>) =
     \<lparr>instant = 1577836800500000000, location = Local\<rparr> \<and>
   unixSecondsCodec_EncodeTime \<lparr>instant = 1577836800500000000, location = Local\<rparr> [] =
     [WFloat64 (Finite (15778368005 / 10))]"
proof (intro conjI impI)
  let ?n = "sint (int64_of_float64 (fmul sec (Finite 1000000)))"
  assume "- (2 ^ 63) \<le> ?n * 1000 \<and> ?n * 1000 < 2 ^ 63"
  then have "sint (int64_of_float64 (fmul sec (Finite 1000000)) * 1000) = ?n * 1000"
    by (intro sint_mult_1000) simp_all
  then show i: "instant (UnixSeconds sec) = ?n * 1000"
    by (simp add: UnixSeconds_eq time_Unix_def)
  show "instant (UnixSeconds sec) mod 1000 = 0"
    by (simp add: i)
next
  show "fst (unixSecondsCodec_DecodeTime L \<lparr>buf = JNumber (15778368005 / 10) # rest, Error = err\<rparr>) =
     \<lparr>instant = 1577836800500000000, location = Local\<rparr>"
    by code_simp
next
  show "unixSecondsCodec_EncodeTime \<lparr>instant = 1577836800500000000, location = Local\<rparr> [] =
     [WFloat64 (Finite (15778368005 / 10))]"
    by (rule encode_1577836800_5)
qed

theorem C7_witness:
  "- (2 ^ 63) \<le> sint (int64_of_float64 (fmul (Finite (15778368005 / 10)) (Finite 1000000))) * 1000 \<and>
   sint (int64_of_float64 (fmul (Finite (15778368005 / 10)) (Finite 1000000))) * 1000 < 2 ^ 63 \<and>
   instant (UnixSeconds (Finite (15778368005 / 10))) = 1577836800500000000 \<and>
   instant (UnixSeconds (Finite (15778368005 / 10))) mod 1000 = 0"
proof -
  have n: "sint (int64_of_float64 (fmul (Finite (15778368005 / 10)) (Finite 1000000))) = 1577836800500000"
    by code_simp
  from C7_unix_seconds[of "Finite (15778368005 / 10)"] n show ?thesis by simp
qed

subsection \<open>The fallback chain\<close>

lemma reset_child: "(ResetBytes child rawJSON)\<lparr>Error := None\<rparr> = \<lparr>buf = rawJSON, Error = None\<rparr>"
  by (simp add: ResetBytes_def)

lemma tryDecoder_loop_spec:
  "i \<noteq> 0 \<or> child = \<lparr>buf = rawJSON, Error = None\<rparr> \<Longrightarrow>
   loop_outcome (tryDecoder_loop decs i rawJSON child p) = spec_chain decs rawJSON (Error child) p"
proof (induction decs arbitrary: i child p)
  case Nil
  show ?case by (simp add: loop_outcome_def)
next
  case (Cons dec decs)
  let ?fresh = "\<lparr>buf = rawJSON, Error = None\<rparr>"
  from Cons.prems
  have c1: "(if i \<noteq> 0 then (ResetBytes child rawJSON)\<lparr>Error := None\<rparr> else child) = ?fresh"
    by (auto simp: reset_child)
  obtain tm child2 p2 where a: "dec ?fresh p = (tm, child2, p2)"
    by (cases "dec ?fresh p") auto
  show ?case
  proof (cases "Error child2 = None")
    case True
    with a c1 show ?thesis
      by (simp add: loop_outcome_def attempt_def)
  next
    case False
    have "loop_outcome (tryDecoder_loop decs (i + 1) rawJSON child2 p2) =
            spec_chain decs rawJSON (Error child2) p2"
      by (rule Cons.IH) simp
    with False a c1 show ?thesis
      by (auto simp: attempt_def)
  qed
qed

lemma tryDecoder_DecodeTime_outcome:
  "tryDecoder_DecodeTime decoders iter p =
     (case loop_outcome (tryDecoder_loop decoders 0 (take 1 (buf iter))
                           \<lparr>buf = take 1 (buf iter), Error = None\<rparr> (p\<lparr>borrowed := borrowed p + 1\<rparr>)) of
        (Inl tm, p1) \<Rightarrow> (tm, Skip iter, p1\<lparr>returned := returned p1 + 1\<rparr>)
      | (Inr lastErr, p1) \<Rightarrow>
          (Time_zero, (Skip iter)\<lparr>Error := lastErr\<rparr>, p1\<lparr>returned := returned p1 + 1\<rparr>))"
  by (simp add: tryDecoder_DecodeTime_def SkipAndReturnBytes_def BorrowIterator_def
      ReturnIterator_def ResetBytes_def loop_outcome_def split: prod.split option.split)

lemma attempt_neutral: "pool_neutral d \<Longrightarrow> snd (snd (attempt d rawJSON p)) = p"
  by (simp add: pool_neutral_def attempt_def)

lemma spec_chain_first_success:
  assumes "\<forall>x \<in> set pre. pool_neutral x" and "pool_neutral d"
    and "\<forall>x \<in> set pre. Error (fst (snd (attempt x rawJSON p))) \<noteq> None"
    and "Error (fst (snd (attempt d rawJSON p))) = None"
  shows "spec_chain (pre @ d # post) rawJSON e p = (Inl (fst (attempt d rawJSON p)), p)"
  using assms(1,3)
proof (induction pre arbitrary: e)
  case Nil
  obtain tm it p1 where a: "attempt d rawJSON p = (tm, it, p1)"
    by (cases "attempt d rawJSON p") auto
  with attempt_neutral[OF assms(2), of rawJSON p] have "p1 = p" by simp
  with a assms(4) show ?case by simp
next
  case (Cons x pre)
  obtain tm it p1 where a: "attempt x rawJSON p = (tm, it, p1)"
    by (cases "attempt x rawJSON p") auto
  from Cons.prems have "pool_neutral x" by simp
  with a attempt_neutral[of x rawJSON p] have p1: "p1 = p" by simp
  from Cons.prems a have f: "Error it \<noteq> None" by auto
  have "spec_chain (pre @ d # post) rawJSON (Error it) p = (Inl (fst (attempt d rawJSON p)), p)"
    using Cons.prems by (intro Cons.IH) simp_all
  with a p1 f show ?case by auto
qed

lemma spec_chain_all_fail:
  assumes "\<forall>x \<in> set ds. pool_neutral x"
    and "\<forall>x \<in> set ds. Error (fst (snd (attempt x rawJSON p))) \<noteq> None"
  shows "spec_chain ds rawJSON e p =
           (Inr (if ds = [] then e else Error (fst (snd (attempt (last ds) rawJSON p)))), p)"
  using assms
proof (induction ds arbitrary: e)
  case Nil
  show ?case by simp
next
  case (Cons x ds)
  obtain tm it p1 where a: "attempt x rawJSON p = (tm, it, p1)"
    by (cases "attempt x rawJSON p") auto
  from Cons.prems have "pool_neutral x" by simp
  with a attempt_neutral[of x rawJSON p] have p1: "p1 = p" by simp
  from Cons.prems a have f: "Error it \<noteq> None" by auto
  have "spec_chain ds rawJSON (Error it) p =
           (Inr (if ds = [] then Error it else Error (fst (snd (attempt (last ds) rawJSON p)))), p)"
    using Cons.prems by (intro Cons.IH) simp_all
  with a p1 f show ?case by auto
qed

lemma TryDecoders_spec:
  "TryDecoders_DecodeTime dec fallback iter p = spec_TryDecoders dec fallback iter p"
  unfolding TryDecoders_DecodeTime_def tryDecoder_DecodeTime_outcome spec_TryDecoders_def
  by (simp add: Let_def tryDecoder_loop_spec del: tryDecoder_loop.simps spec_chain.simps)

lemma pool_neutral_no_pool: "pool_neutral (no_pool f)"
  by (simp add: pool_neutral_def no_pool_def split: prod.split)

text \<open>
  Claim C3. The chain built by \<open>TryDecoders\<close> is the chain as the specification
  words it: it reads the raw value once and gives the first decoder and then each
  fallback, in order, a fresh iterator over that raw value with no error. With
  decoders that leave the pool alone this means: when \<open>d\<close> is the first decoder whose
  attempt leaves no error, the chain returns the time of that attempt and the
  caller's iterator keeps its own error; when every attempt leaves an error, the
  chain returns the zero time and the caller's iterator gets the error of the last
  decoder's attempt.
\<close>

theorem C3_fallback_chain:
  "TryDecoders_DecodeTime dec fallback iter p = spec_TryDecoders dec fallback iter p \<and>
   (let rawJSON = take 1 (buf iter);
        p1 = p\<lparr>borrowed := borrowed p + 1\<rparr>;
        p2 = p\<lparr>borrowed := borrowed p + 1, returned := returned p + 1\<rparr>
    in ((\<forall>x \<in> set (dec # fallback). pool_neutral x) \<and>
        dec # fallback = pre @ d # post \<and>
        (\<forall>x \<in> set pre. Error (fst (snd (attempt x rawJSON p1))) \<noteq> None) \<and>
        Error (fst (snd (attempt d rawJSON p1))) = None \<longrightarrow>
          TryDecoders_DecodeTime dec fallback iter p = (fst (attempt d rawJSON p1), Skip iter, p2)) \<and>
       ((\<forall>x \<in> set (dec # fallback). pool_neutral x) \<and>
        (\<forall>x \<in> set (dec # fallback). Error (fst (snd (attempt x rawJSON p1))) \<noteq> None) \<longrightarrow>
          TryDecoders_DecodeTime dec fallback iter p =
            (Time_zero,
             (Skip iter)\<lparr>Error := Error (fst (snd (attempt (last (dec # fallback)) rawJSON p1)))\<rparr>,
             p2)))"
proof -
  let ?raw = "take 1 (buf iter)"
  let ?p1 = "p\<lparr>borrowed := borrowed p + 1\<rparr>"
  let ?p2 = "p\<lparr>borrowed := borrowed p + 1, returned := returned p + 1\<rparr>"
  have first:
    "TryDecoders_DecodeTime dec fallback iter p = (fst (attempt d ?raw ?p1), Skip iter, ?p2)"
    if n: "\<forall>x \<in> set (dec # fallback). pool_neutral x"
      and s: "dec # fallback = pre @ d # post"
      and f: "\<forall>x \<in> set pre. Error (fst (snd (attempt x ?raw ?p1))) \<noteq> None"
      and ok: "Error (fst (snd (attempt d ?raw ?p1))) = None"
  proof -
    from s have "set (dec # fallback) = set (pre @ d # post)" by simp
    with n have "\<forall>x \<in> set pre. pool_neutral x" "pool_neutral d"
      by auto
    then have "spec_chain (pre @ d # post) ?raw None ?p1 = (Inl (fst (attempt d ?raw ?p1)), ?p1)"
      using f ok by (rule spec_chain_first_success)
    with s show ?thesis
      by (simp add: TryDecoders_spec spec_TryDecoders_def Let_def del: spec_chain.simps)
  qed
  have none:
    "TryDecoders_DecodeTime dec fallback iter p =
       (Time_zero,
        (Skip iter)\<lparr>Error := Error (fst (snd (attempt (last (dec # fallback)) ?raw ?p1)))\<rparr>, ?p2)"
    if n: "\<forall>x \<in> set (dec # fallback). pool_neutral x"
      and f: "\<forall>x \<in> set (dec # fallback). Error (fst (snd (attempt x ?raw ?p1))) \<noteq> None"
  proof -
    from n f have "spec_chain (dec # fallback) ?raw None ?p1 =
        (Inr (if dec # fallback = [] then None
              else Error (fst (snd (attempt (last (dec # fallback)) ?raw ?p1)))), ?p1)"
      by (rule spec_chain_all_fail)
    then show ?thesis
      by (simp add: TryDecoders_spec spec_TryDecoders_def Let_def del: spec_chain.simps)
  qed
  from first none show ?thesis
    unfolding Let_def using TryDecoders_spec[of dec fallback iter p] by blast
qed

theorem C3_witness:
  "\<forall>L. pool_neutral (no_pool (stdCodec_DecodeTime L)) \<and>
        pool_neutral (no_pool (unixSecondsCodec_DecodeTime L)) \<and>
        Error (fst (snd (attempt (no_pool (stdCodec_DecodeTime L)) [JString []]
                          \<lparr>borrowed = 1, returned = 0\<rparr>))) \<noteq> None \<and>
        Error (fst (snd (attempt (no_pool (unixSecondsCodec_DecodeTime L)) [JString []]
                          \<lparr>borrowed = 1, returned = 0\<rparr>))) = None \<and>
        TryDecoders_DecodeTime (no_pool (stdCodec_DecodeTime L))
            [no_pool (unixSecondsCodec_DecodeTime L)]
            \<lparr>buf = [JString [], JNil], Error = None\<rparr> \<lparr>borrowed = 0, returned = 0\<rparr> =
          (Time_zero, \<lparr>buf = [JNil], Error = None\<rparr>, \<lparr>borrowed = 1, returned = 1\<rparr>) \<and>
        pool_neutral (no_pool (layoutCodec_DecodeTime L ''2006-01-02'')) \<and>
        pool_neutral (no_pool (unixMillisecondsCodec_DecodeTime L)) \<and>
        Error (fst (snd (attempt (no_pool (layoutCodec_DecodeTime L ''2006-01-02'')) [JBool True]
                          \<lparr>borrowed = 1, returned = 0\<rparr>))) \<noteq> None \<and>
        Error (fst (snd (attempt (no_pool (unixMillisecondsCodec_DecodeTime L)) [JBool True]
                          \<lparr>borrowed = 1, returned = 0\<rparr>))) \<noteq> None \<and>
        TryDecoders_DecodeTime (no_pool (layoutCodec_DecodeTime L ''2006-01-02''))
            [no_pool (unixMillisecondsCodec_DecodeTime L)]
            \<lparr>buf = [JBool True, JNil], Error = None\<rparr> \<lparr>borrowed = 0, returned = 0\<rparr> =
          (Time_zero,
           \<lparr>buf = [JNil], Error = Some (Reported ''ReadUnixMilliseconds'' ''invalid JSON value'')\<rparr>,
           \<lparr>borrowed = 1, returned = 1\<rparr>)"
proof
  fix L
  let ?std = "no_pool (stdCodec_DecodeTime L)"
  let ?sec = "no_pool (unixSecondsCodec_DecodeTime L)"
  let ?lay = "no_pool (layoutCodec_DecodeTime L ''2006-01-02'')"
  let ?ms = "no_pool (unixMillisecondsCodec_DecodeTime L)"
  let ?p = "\<lparr>borrowed = 0, returned = 0\<rparr>"
  let ?p1 = "\<lparr>borrowed = 1, returned = 0\<rparr>"
  have n: "pool_neutral ?std" "pool_neutral ?sec" "pool_neutral ?lay" "pool_neutral ?ms"
    by (rule pool_neutral_no_pool)+
  have a1: "attempt ?std [JString []] ?p1 =
      (Time_zero, \<lparr>buf = [], Error = Some (Reported ''DecodeTime''
         ''parsing time: cannot parse the empty text as 2006'')\<rparr>, ?p1)"
    by (simp add: attempt_def no_pool_def stdCodec_DecodeTime_def ReadString_def time_Parse_def
        ReportError_def)
  have a2: "attempt ?sec [JString []] ?p1 = (Time_zero, \<lparr>buf = [], Error = None\<rparr>, ?p1)"
    by (simp add: attempt_def no_pool_def unixSecondsCodec_DecodeTime_def WhatIsNext_def
        ReadString_def)
  have a3: "attempt ?lay [JBool True] ?p1 =
      (Time_zero, \<lparr>buf = [], Error = Some (Reported ''DecodeTime'' ''invalid JSON value'')\<rparr>, ?p1)"
    by (simp add: attempt_def no_pool_def layoutCodec_DecodeTime_def WhatIsNext_def Skip_def
        ReportError_def)
  have a4: "attempt ?ms [JBool True] ?p1 =
      (Time_zero,
       \<lparr>buf = [], Error = Some (Reported ''ReadUnixMilliseconds'' ''invalid JSON value'')\<rparr>, ?p1)"
    by (simp add: attempt_def no_pool_def unixMillisecondsCodec_DecodeTime_def WhatIsNext_def
        Skip_def ReportError_def)
  from n a1 a2
    C3_fallback_chain[of ?std "[?sec]" "\<lparr>buf = [JString [], JNil], Error = None\<rparr>" ?p
      "[?std]" ?sec "[]", THEN conjunct2]
  have r1: "TryDecoders_DecodeTime ?std [?sec] \<lparr>buf = [JString [], JNil], Error = None\<rparr> ?p =
      (Time_zero, \<lparr>buf = [JNil], Error = None\<rparr>, \<lparr>borrowed = 1, returned = 1\<rparr>)"
    by (simp add: Let_def Skip_def)
  from n a3 a4
    C3_fallback_chain[of ?lay "[?ms]" "\<lparr>buf = [JBool True, JNil], Error = None\<rparr>" ?p,
      THEN conjunct2]
  have r2: "TryDecoders_DecodeTime ?lay [?ms] \<lparr>buf = [JBool True, JNil], Error = None\<rparr> ?p =
      (Time_zero,
       \<lparr>buf = [JNil], Error = Some (Reported ''ReadUnixMilliseconds'' ''invalid JSON value'')\<rparr>,
       \<lparr>borrowed = 1, returned = 1\<rparr>)"
    by (simp add: Let_def Skip_def)
  from n a1 a2 a3 a4 r1 r2
  show "pool_neutral ?std \<and> pool_neutral ?sec \<and>
        Error (fst (snd (attempt ?std [JString []] ?p1))) \<noteq> None \<and>
        Error (fst (snd (attempt ?sec [JString []] ?p1))) = None \<and>
        TryDecoders_DecodeTime ?std [?sec] \<lparr>buf = [JString [], JNil], Error = None\<rparr> ?p =
          (Time_zero, \<lparr>buf = [JNil], Error = None\<rparr>, \<lparr>borrowed = 1, returned = 1\<rparr>) \<and>
        pool_neutral ?lay \<and> pool_neutral ?ms \<and>
        Error (fst (snd (attempt ?lay [JBool True] ?p1))) \<noteq> None \<and>
        Error (fst (snd (attempt ?ms [JBool True] ?p1))) \<noteq> None \<and>
        TryDecoders_DecodeTime ?lay [?ms] \<lparr>buf = [JBool True, JNil], Error = None\<rparr> ?p =
          (Time_zero,
           \<lparr>buf = [JNil], Error = Some (Reported ''ReadUnixMilliseconds'' ''invalid JSON value'')\<rparr>,
           \<lparr>borrowed = 1, returned = 1\<rparr>)"
    by simp
qed


subsection \<open>The scratch iterator goes back to the pool\<close>

lemma tryDecoder_loop_pool_neutral:
  "\<forall>d \<in> set decs. pool_neutral d \<Longrightarrow> snd (snd (tryDecoder_loop decs i rawJSON child p)) = p"
proof (induction decs arbitrary: i child p)
  case Nil
  show ?case by simp
next
  case (Cons dec decs)
  let ?c1 = "if i \<noteq> 0 then (ResetBytes child rawJSON)\<lparr>Error := None\<rparr> else child"
  obtain tm child2 p2 where a: "dec ?c1 p = (tm, child2, p2)"
    by (cases "dec ?c1 p") auto
  from Cons.prems have "pool_neutral dec" by simp
  then have "snd (snd (dec ?c1 p)) = p" unfolding pool_neutral_def by blast
  with a have p2: "p2 = p" by simp
  from Cons.prems have "snd (snd (tryDecoder_loop decs (i + 1) rawJSON child2 p)) = p"
    by (intro Cons.IH) simp
  with a p2 show ?case by (simp add: Let_def)
qed

lemma tryDecoder_loop_pool_balanced:
  "\<forall>d \<in> set decs. pool_balanced d \<Longrightarrow>
   \<exists>k. snd (snd (tryDecoder_loop decs i rawJSON child p)) =
         p\<lparr>borrowed := borrowed p + k, returned := returned p + k\<rparr>"
proof (induction decs arbitrary: i child p)
  case Nil
  have "p = p\<lparr>borrowed := borrowed p + 0, returned := returned p + 0\<rparr>" by simp
  then show ?case by (metis tryDecoder_loop.simps(1) snd_conv)
next
  case (Cons dec decs)
  let ?c1 = "if i \<noteq> 0 then (ResetBytes child rawJSON)\<lparr>Error := None\<rparr> else child"
  obtain tm child2 p2 where a: "dec ?c1 p = (tm, child2, p2)"
    by (cases "dec ?c1 p") auto
  from Cons.prems have "pool_balanced dec" by simp
  then obtain k where "snd (snd (dec ?c1 p)) = p\<lparr>borrowed := borrowed p + k, returned := returned p + k\<rparr>"
    unfolding pool_balanced_def by blast
  with a have p2: "p2 = p\<lparr>borrowed := borrowed p + k, returned := returned p + k\<rparr>" by simp
  from Cons.prems obtain m where
    m: "snd (snd (tryDecoder_loop decs (i + 1) rawJSON child2 p2)) =
          p2\<lparr>borrowed := borrowed p2 + m, returned := returned p2 + m\<rparr>"
    using Cons.IH[of "i + 1" child2 p2] by auto
  show ?case
  proof (cases "Error child2 = None")
    case True
    with a p2 show ?thesis by (auto simp: Let_def intro!: exI[of _ k])
  next
    case False
    with a p2 m show ?thesis by (auto simp: Let_def intro!: exI[of _ "k + m"])
  qed
qed

lemma tryDecoder_DecodeTime_pool:
  "snd (snd (tryDecoder_DecodeTime decoders iter p)) =
     (let p2 = snd (snd (tryDecoder_loop decoders 0 (take 1 (buf iter))
                     \<lparr>buf = take 1 (buf iter), Error = None\<rparr> (p\<lparr>borrowed := borrowed p + 1\<rparr>)))
      in p2\<lparr>returned := returned p2 + 1\<rparr>)"
  by (simp add: tryDecoder_DecodeTime_def SkipAndReturnBytes_def BorrowIterator_def
      ReturnIterator_def ResetBytes_def Let_def split: prod.split option.split)

lemma pool_neutral_balanced: "pool_neutral d \<Longrightarrow> pool_balanced d"
  unfolding pool_neutral_def pool_balanced_def
proof (intro allI)
  fix iter :: Iterator and p :: Pool
  assume "\<forall>iter p. snd (snd (d iter p)) = p"
  then have "snd (snd (d iter p)) = p\<lparr>borrowed := borrowed p + 0, returned := returned p + 0\<rparr>"
    by simp
  then show "\<exists>k. snd (snd (d iter p)) = p\<lparr>borrowed := borrowed p + k, returned := returned p + k\<rparr>"
    by blast
qed

text \<open>
  Claim C8. A chain over decoders that leave the pool alone borrows one iterator and
  hands one back, whatever the decoders do to the iterator: on the path where an
  attempt succeeds and on the path where every decoder fails. A chain over decoders
  that hand back all they borrow (other chains, for one) hands back all it borrows.
\<close>

theorem C8_pool:
  "((\<forall>d \<in> set decoders. pool_neutral d) \<longrightarrow>
      snd (snd (tryDecoder_DecodeTime decoders iter p)) =
        p\<lparr>borrowed := borrowed p + 1, returned := returned p + 1\<rparr>) \<and>
   ((\<forall>d \<in> set decoders. pool_balanced d) \<longrightarrow> pool_balanced (tryDecoder_DecodeTime decoders))"
proof (intro conjI impI)
  assume "\<forall>d \<in> set decoders. pool_neutral d"
  then show "snd (snd (tryDecoder_DecodeTime decoders iter p)) =
        p\<lparr>borrowed := borrowed p + 1, returned := returned p + 1\<rparr>"
    by (simp add: tryDecoder_DecodeTime_pool tryDecoder_loop_pool_neutral)
next
  assume b: "\<forall>d \<in> set decoders. pool_balanced d"
  show "pool_balanced (tryDecoder_DecodeTime decoders)"
    unfolding pool_balanced_def
  proof (intro allI)
    fix it :: Iterator and q :: Pool
    let ?q1 = "q\<lparr>borrowed := borrowed q + 1\<rparr>"
    from tryDecoder_loop_pool_balanced[OF b, of 0 "take 1 (buf it)" "\<lparr>buf = take 1 (buf it), Error = None\<rparr>" ?q1]
    obtain k where "snd (snd (tryDecoder_loop decoders 0 (take 1 (buf it))
                     \<lparr>buf = take 1 (buf it), Error = None\<rparr> ?q1)) =
         ?q1\<lparr>borrowed := borrowed ?q1 + k, returned := returned ?q1 + k\<rparr>" by blast
    then have "snd (snd (tryDecoder_DecodeTime decoders it q)) =
        q\<lparr>borrowed := borrowed q + (k + 1), returned := returned q + (k + 1)\<rparr>"
      by (simp add: tryDecoder_DecodeTime_pool)
    then show "\<exists>k. snd (snd (tryDecoder_DecodeTime decoders it q)) =
        q\<lparr>borrowed := borrowed q + k, returned := returned q + k\<rparr>" by blast
  qed
qed

theorem C8_witness:
  "\<forall>L. (\<forall>d \<in> set [no_pool (layoutCodec_DecodeTime L ''bad''), no_pool (unixSecondsCodec_DecodeTime L)].
           pool_neutral d) \<and>
        (\<forall>d \<in> set [no_pool (layoutCodec_DecodeTime L ''bad''), no_pool (unixSecondsCodec_DecodeTime L)].
           pool_balanced d) \<and>
        snd (snd (tryDecoder_DecodeTime
                    [no_pool (layoutCodec_DecodeTime L ''bad''), no_pool (unixSecondsCodec_DecodeTime L)]
                    \<lparr>buf = [JNumber 1577836800], Error = None\<rparr> \<lparr>borrowed = 0, returned = 0\<rparr>)) =
          \<lparr>borrowed = 1, returned = 1\<rparr> \<and>
        pool_balanced (tryDecoder_DecodeTime
                    [no_pool (layoutCodec_DecodeTime L ''bad''), no_pool (unixSecondsCodec_DecodeTime L)])"
proof
  fix L
  let ?ds = "[no_pool (layoutCodec_DecodeTime L ''bad''), no_pool (unixSecondsCodec_DecodeTime L)]"
  have n: "\<forall>d \<in> set ?ds. pool_neutral d"
    by (simp add: pool_neutral_no_pool)
  then have b: "\<forall>d \<in> set ?ds. pool_balanced d"
    by (simp add: pool_neutral_balanced)
  from n b C8_pool[of ?ds "\<lparr>buf = [JNumber 1577836800], Error = None\<rparr>" "\<lparr>borrowed = 0, returned = 0\<rparr>"]
  show "(\<forall>d \<in> set ?ds. pool_neutral d) \<and> (\<forall>d \<in> set ?ds. pool_balanced d) \<and>
        snd (snd (tryDecoder_DecodeTime ?ds
                    \<lparr>buf = [JNumber 1577836800], Error = None\<rparr> \<lparr>borrowed = 0, returned = 0\<rparr>)) =
          \<lparr>borrowed = 1, returned = 1\<rparr> \<and>
        pool_balanced (tryDecoder_DecodeTime ?ds)"
    by simp
qed

end
